theory Spec2Isabelle
  imports Complex_Main "HOL-Library.Sublist" "HOL-Library.Multiset"
begin

section \<open>Shared data model\<close>

text \<open>
  The rule engines of package \<open>jobs\<close> work on rows whose fields are strings and on rules
  whose parameters are loosely typed (\<open>interface{}\<close>). A Go string is a byte sequence, as
  an Isabelle \<open>string\<close> is; a Go \<open>map[string]string\<close> is a partial function from keys to
  values. A \<open>float64\<close> is modelled by the real number it denotes: rounding, infinities and
  NaN are outside the model, and Go's \<open>int\<close> is an unbounded integer (no arithmetic on
  it can overflow in the functions below: they only count rows and compare lengths).
  Logging through zerolog has no effect on any result and is left out.
\<close>

datatype anyval =
    VNil
  | VBool bool
  | VInt int
  | VInt64 int
  | VFloat real
  | VString string
  | VList "anyval list"
  | VMap "string \<Rightarrow> anyval option"

record DataRow =
  Fields :: "string \<rightharpoonup> string"

text \<open>Reading \<open>row.Fields[field]\<close> without the presence flag gives the empty string for a
  missing key.\<close>

definition fieldOrEmpty :: "DataRow \<Rightarrow> string \<Rightarrow> string" where
  "fieldOrEmpty row field = (case Fields row field of None \<Rightarrow> [] | Some v \<Rightarrow> v)"

subsection \<open>The Go standard library\<close>

text \<open>
  Functions of \<open>strconv\<close>, \<open>regexp\<close>, \<open>fmt\<close> and \<open>strings\<close> whose implementation is not
  part of the repository are parameters of the model, collected in one record:
  \<^item> \<open>parseFloat s\<close> is \<open>strconv.ParseFloat(s, 64)\<close>, \<open>None\<close> when it returns an error;
  \<^item> \<open>regexMatch pattern s\<close> is \<open>regexp.MatchString(pattern, s)\<close>, \<open>None\<close> when the
    pattern does not compile;
  \<^item> \<open>regexFindSubmatch pattern s\<close> is \<open>regexp.Compile\<close> followed by
    \<open>FindStringSubmatch\<close>: \<open>None\<close> when the pattern does not compile, the empty list
    when nothing matches;
  \<^item> \<open>sprintV\<close>, \<open>sprintD\<close>, \<open>sprintF2\<close> are \<open>fmt.Sprintf\<close> with the verbs \<open>%v\<close>,
    \<open>%d\<close> and \<open>%.2f\<close>;
  \<^item> \<open>floatToInt\<close> is the conversion \<open>int(x)\<close> of a \<open>float64\<close>;
  \<^item> \<open>strTitle\<close>, \<open>strTrimSpace\<close>, \<open>strReplaceAll\<close>, \<open>strSplit\<close> are the functions
    of package \<open>strings\<close> of the same names.
\<close>

record golib =
  parseFloat :: "string \<Rightarrow> real option"
  regexMatch :: "string \<Rightarrow> string \<Rightarrow> bool option"
  regexFindSubmatch :: "string \<Rightarrow> string \<Rightarrow> string list option"
  sprintV :: "anyval \<Rightarrow> string"
  sprintD :: "int \<Rightarrow> string"
  sprintF2 :: "real \<Rightarrow> string"
  floatToInt :: "real \<Rightarrow> int"
  strTitle :: "string \<Rightarrow> string"
  strTrimSpace :: "string \<Rightarrow> string"
  strReplaceAll :: "string \<Rightarrow> string \<Rightarrow> string \<Rightarrow> string"
  strSplit :: "string \<Rightarrow> string \<Rightarrow> string list"

text \<open>\<open>fmt.Sprintf("%v", v)\<close> prints a string as it is.\<close>

definition formatV :: "golib \<Rightarrow> anyval \<Rightarrow> string" where
  "formatV lib v = (case v of VString s \<Rightarrow> s | _ \<Rightarrow> sprintV lib v)"

text \<open>
  Case mapping is modelled on ASCII: \<open>strings.ToUpper\<close> and \<open>strings.ToLower\<close> map the
  bytes \<open>a\<close>..\<open>z\<close> and \<open>A\<close>..\<open>Z\<close> onto each other and leave every other byte below
  \<open>0x80\<close> alone. On a string with bytes from \<open>0x80\<close> on, Go decodes UTF-8 and uses
  the Unicode tables; the model leaves such bytes unchanged, so it is exact on ASCII
  strings only. \<open>strings.EqualFold\<close> on ASCII strings is equality after lower-casing.
\<close>

definition isUpperByte :: "char \<Rightarrow> bool" where
  "isUpperByte c = (65 \<le> (of_char c :: nat) \<and> (of_char c :: nat) \<le> 90)"

definition isLowerByte :: "char \<Rightarrow> bool" where
  "isLowerByte c = (97 \<le> (of_char c :: nat) \<and> (of_char c :: nat) \<le> 122)"

definition isLetterByte :: "char \<Rightarrow> bool" where
  "isLetterByte c = (isLowerByte c \<or> isUpperByte c)"

definition toLowerByte :: "char \<Rightarrow> char" where
  "toLowerByte c = (if isUpperByte c then char_of ((of_char c :: nat) + 32) else c)"

definition toUpperByte :: "char \<Rightarrow> char" where
  "toUpperByte c = (if isLowerByte c then char_of ((of_char c :: nat) - 32) else c)"

definition toLower :: "string \<Rightarrow> string" where
  "toLower s = map toLowerByte s"

definition toUpper :: "string \<Rightarrow> string" where
  "toUpper s = map toUpperByte s"

definition equalFold :: "string \<Rightarrow> string \<Rightarrow> bool" where
  "equalFold a b = (toLower a = toLower b)"

text \<open>\<open>strings.Contains\<close>, \<open>strings.HasPrefix\<close> and \<open>strings.HasSuffix\<close> compare bytes.\<close>

definition containsStr :: "string \<Rightarrow> string \<Rightarrow> bool" where
  "containsStr s substr = sublist substr s"

definition hasPrefix :: "string \<Rightarrow> string \<Rightarrow> bool" where
  "hasPrefix s p = prefix p s"

definition hasSuffix :: "string \<Rightarrow> string \<Rightarrow> bool" where
  "hasSuffix s p = suffix p s"

text \<open>\<open>strings.Join\<close>.\<close>

fun joinStr :: "string list \<Rightarrow> string \<Rightarrow> string" where
  "joinStr [] sep = []"
| "joinStr [x] sep = x"
| "joinStr (x # y # ys) sep = x @ sep @ joinStr (y # ys) sep"

subsection \<open>The file service\<close>

text \<open>
  \<open>FileService.ReadCSV\<close> and \<open>FileService.WriteJSON\<close> do input and output; the engines
  only look at whether they fail. They are parameters: \<open>ReadCSV path\<close> is the rows read
  or an error message, \<open>WriteJSON path rows\<close> is \<open>None\<close> on success.
\<close>

record FileService =
  ReadCSV :: "string \<Rightarrow> string + DataRow list"
  WriteJSON :: "string \<Rightarrow> DataRow list \<Rightarrow> string option"

section \<open>Filter engine\<close>

record FilterRule =
  Field :: string
  Operator :: string
  Value :: anyval

record FilterOptions =
  InputFile :: string
  OutputFile :: string
  Rules :: "FilterRule list"
  Inclusive :: bool

text \<open>
  \<open>compareValues\<close>: the type switch on the rule's value. In the numeric case the inner
  assertion to \<open>string\<close> can never hold, and an \<open>int64\<close> matches none of the inner
  assertions, so the function returns false for it.
\<close>

definition compareValues :: "golib \<Rightarrow> string \<Rightarrow> anyval \<Rightarrow> bool" where
  "compareValues lib a b =
     (case b of
        VString v \<Rightarrow> equalFold a v
      | VInt intVal \<Rightarrow>
          (case parseFloat lib a of Some num \<Rightarrow> num = of_int intVal | None \<Rightarrow> False)
      | VInt64 _ \<Rightarrow> False
      | VFloat numVal \<Rightarrow>
          (case parseFloat lib a of Some num \<Rightarrow> num = numVal | None \<Rightarrow> False)
      | _ \<Rightarrow> a = formatV lib b)"

definition numericCompare :: "golib \<Rightarrow> string \<Rightarrow> anyval \<Rightarrow> bool \<Rightarrow> bool" where
  "numericCompare lib a b isGreater =
     (let r1 = parseFloat lib a;
          r2 = (case b of
                  VFloat v \<Rightarrow> Some v
                | VInt v \<Rightarrow> Some (of_int v)
                | VString v \<Rightarrow> parseFloat lib v
                | _ \<Rightarrow> None)
      in case r2 of
           None \<Rightarrow> False
         | Some bNum \<Rightarrow>
             (case r1 of
                None \<Rightarrow> False
              | Some aNum \<Rightarrow> if isGreater then aNum > bNum else aNum < bNum))"

definition matchesRule :: "golib \<Rightarrow> DataRow \<Rightarrow> FilterRule \<Rightarrow> bool" where
  "matchesRule lib row rule =
     (case Fields row (FilterRule.Field rule) of
        None \<Rightarrow> False
      | Some fieldValue \<Rightarrow>
          if Operator rule = ''equals'' then compareValues lib fieldValue (Value rule)
          else if Operator rule = ''not_equals'' then \<not> compareValues lib fieldValue (Value rule)
          else if Operator rule = ''contains'' then
            containsStr (toLower fieldValue) (toLower (formatV lib (Value rule)))
          else if Operator rule = ''not_contains'' then
            \<not> containsStr (toLower fieldValue) (toLower (formatV lib (Value rule)))
          else if Operator rule = ''starts_with'' then
            hasPrefix (toLower fieldValue) (toLower (formatV lib (Value rule)))
          else if Operator rule = ''ends_with'' then
            hasSuffix (toLower fieldValue) (toLower (formatV lib (Value rule)))
          else if Operator rule = ''regex'' then
            (case Value rule of
               VString pattern \<Rightarrow>
                 (case regexMatch lib pattern fieldValue of
                    Some matched \<Rightarrow> matched
                  | None \<Rightarrow> False)
             | _ \<Rightarrow> False)
          else if Operator rule = ''greater_than'' then
            numericCompare lib fieldValue (Value rule) True
          else if Operator rule = ''less_than'' then
            numericCompare lib fieldValue (Value rule) False
          else False)"

fun matchesAllRules :: "golib \<Rightarrow> DataRow \<Rightarrow> FilterRule list \<Rightarrow> bool" where
  "matchesAllRules lib row [] = True"
| "matchesAllRules lib row (rule # rules) =
     (if \<not> matchesRule lib row rule then False else matchesAllRules lib row rules)"

text \<open>
  \<open>FilterService.ProcessData\<close>, from the parsed options on (\<open>parseFilterOptions\<close> never
  fails). An empty input with an input file named is replaced by the rows of that file;
  the loop keeps a row when \<open>inclusive\<close> agrees with \<open>matchesAllRules\<close>; a failing read
  or write is the error returned.
\<close>

definition keepRow :: "golib \<Rightarrow> FilterOptions \<Rightarrow> DataRow \<Rightarrow> bool" where
  "keepRow lib opts row =
     (let matches = matchesAllRules lib row (FilterOptions.Rules opts)
      in (Inclusive opts \<and> matches) \<or> (\<not> Inclusive opts \<and> \<not> matches))"

definition filterInput :: "FileService \<Rightarrow> DataRow list \<Rightarrow> FilterOptions \<Rightarrow> string + DataRow list" where
  "filterInput fs input opts =
     (if length input = 0 \<and> FilterOptions.InputFile opts \<noteq> []
      then (case ReadCSV fs (FilterOptions.InputFile opts) of
              Inl err \<Rightarrow> Inl (''failed to read input file: '' @ err)
            | Inr rows \<Rightarrow> Inr rows)
      else Inr input)"

definition ProcessData :: "golib \<Rightarrow> FileService \<Rightarrow> DataRow list \<Rightarrow> FilterOptions \<Rightarrow> string + DataRow list" where
  "ProcessData lib fs input opts =
     (case filterInput fs input opts of
        Inl err \<Rightarrow> Inl err
      | Inr rows \<Rightarrow>
          (let filteredData = filter (keepRow lib opts) rows
           in if FilterOptions.OutputFile opts \<noteq> []
              then (case WriteJSON fs (FilterOptions.OutputFile opts) filteredData of
                      Some err \<Rightarrow> Inl (''failed to write filtered data: '' @ err)
                    | None \<Rightarrow> Inr filteredData)
              else Inr filteredData))"

section \<open>Aggregate engine\<close>

record AggregateRule =
  Field :: string
  Operation :: string
  Alias :: string

text \<open>The result of a reducer is an \<open>interface{}\<close> holding an \<open>int\<close>, an \<open>int64\<close>, a
  \<open>float64\<close> or \<open>nil\<close>.\<close>

datatype aggvalue = AggInt int | AggInt64 int | AggFloat real | AggNil

text \<open>\<open>math.MaxFloat64\<close> is \<open>(2 - 2\<^sup>-\<^sup>5\<^sup>2) \<times> 2\<^sup>1\<^sup>0\<^sup>2\<^sup>3\<close>, that is
  \<open>(2\<^sup>5\<^sup>3 - 1) \<times> 2\<^sup>9\<^sup>7\<^sup>1\<close>.\<close>

definition MaxFloat64 :: real where
  "MaxFloat64 = (2 ^ 53 - 1) * 2 ^ 971"

definition calculateSum :: "golib \<Rightarrow> DataRow list \<Rightarrow> string \<Rightarrow> real" where
  "calculateSum lib data field =
     foldl (\<lambda>sum row. case parseFloat lib (fieldOrEmpty row field) of
                         Some val \<Rightarrow> sum + val
                       | None \<Rightarrow> sum) 0 data"

definition calculateAverage :: "golib \<Rightarrow> DataRow list \<Rightarrow> string \<Rightarrow> real" where
  "calculateAverage lib data field =
     (if length data = 0 then 0
      else calculateSum lib data field / real (length data))"

definition calculateMin :: "golib \<Rightarrow> DataRow list \<Rightarrow> string \<Rightarrow> real" where
  "calculateMin lib data field =
     (if length data = 0 then 0
      else foldl (\<lambda>mIn row. case parseFloat lib (fieldOrEmpty row field) of
                               Some val \<Rightarrow> if val < mIn then val else mIn
                             | None \<Rightarrow> mIn) MaxFloat64 data)"

definition calculateMax :: "golib \<Rightarrow> DataRow list \<Rightarrow> string \<Rightarrow> real" where
  "calculateMax lib data field =
     (if length data = 0 then 0
      else foldl (\<lambda>mAx row. case parseFloat lib (fieldOrEmpty row field) of
                               Some val \<Rightarrow> if val > mAx then val else mAx
                             | None \<Rightarrow> mAx) (- MaxFloat64) data)"

definition calculateDistinct :: "DataRow list \<Rightarrow> string \<Rightarrow> int" where
  "calculateDistinct data field =
     int (length (remdups (map (\<lambda>row. fieldOrEmpty row field) data)))"

definition applyAggregateRule :: "golib \<Rightarrow> DataRow list \<Rightarrow> AggregateRule \<Rightarrow> aggvalue" where
  "applyAggregateRule lib groupData rule =
     (if Operation rule = ''count'' then AggInt (int (length groupData))
      else if Operation rule = ''sum'' then
        AggFloat (calculateSum lib groupData (AggregateRule.Field rule))
      else if Operation rule = ''average'' then
        AggFloat (calculateAverage lib groupData (AggregateRule.Field rule))
      else if Operation rule = ''min'' then
        AggFloat (calculateMin lib groupData (AggregateRule.Field rule))
      else if Operation rule = ''max'' then
        AggFloat (calculateMax lib groupData (AggregateRule.Field rule))
      else if Operation rule = ''distinct'' then
        AggInt64 (calculateDistinct groupData (AggregateRule.Field rule))
      else AggNil)"

definition createGroupKey :: "DataRow \<Rightarrow> string list \<Rightarrow> string" where
  "createGroupKey row groupBy = joinStr (map (fieldOrEmpty row) groupBy) ''|''"

text \<open>\<open>groupData\<close>: \<open>groups[key] = append(groups[key], row)\<close>, where a missing key reads as
  the empty slice.\<close>

definition groupData :: "DataRow list \<Rightarrow> string list \<Rightarrow> (string \<rightharpoonup> DataRow list)" where
  "groupData data groupBy =
     foldl (\<lambda>groups row.
              let key = createGroupKey row groupBy
              in groups(key \<mapsto> (case groups key of None \<Rightarrow> [] | Some rs \<Rightarrow> rs) @ [row]))
           Map.empty data"

text \<open>
  \<open>calculateFieldStats\<close>, the reducer of summary mode. The loop skips empty values,
  collects the distinct values and the values that parse; minimum, maximum, sum and average
  stay at the zero value of the struct unless at least one value parsed.
\<close>

record FieldStats =
  Count :: int
  Sum :: real
  Average :: real
  Min :: real
  Max :: real
  Unique :: int
  NullCount :: int

definition fieldStatsStep ::
  "golib \<Rightarrow> string \<Rightarrow> real \<times> real list \<times> string list \<times> int \<Rightarrow> DataRow
     \<Rightarrow> real \<times> real list \<times> string list \<times> int" where
  "fieldStatsStep lib field st row =
     (case st of (sumv, numericValues, unique, nullCount) \<Rightarrow>
        let value = fieldOrEmpty row field
        in if value = [] then (sumv, numericValues, unique, nullCount + 1)
           else (case parseFloat lib value of
                   Some val \<Rightarrow> (sumv + val, numericValues @ [val], List.insert value unique, nullCount)
                 | None \<Rightarrow> (sumv, numericValues, List.insert value unique, nullCount)))"

definition calculateFieldStats :: "golib \<Rightarrow> DataRow list \<Rightarrow> string \<Rightarrow> FieldStats" where
  "calculateFieldStats lib data field =
     (case foldl (fieldStatsStep lib field) (0, [], [], 0) data of
        (sumv, numericValues, unique, nullCount) \<Rightarrow>
          (case numericValues of
             [] \<Rightarrow> \<lparr>Count = int (length data), Sum = 0, Average = 0, Min = 0, Max = 0,
                    Unique = int (length unique), NullCount = nullCount\<rparr>
           | v0 # _ \<Rightarrow>
               \<lparr>Count = int (length data), Sum = sumv,
                Average = sumv / real (length numericValues),
                Min = foldl (\<lambda>m val. if val < m then val else m) v0 numericValues,
                Max = foldl (\<lambda>m val. if val > m then val else m) v0 numericValues,
                Unique = int (length unique), NullCount = nullCount\<rparr>))"

section \<open>Validate engine\<close>

record ValidationRule =
  Field :: string
  Type :: string
  Constraints :: anyval
  Message :: string

record ValidationError =
  RowNumber :: int
  FieldName :: string
  FieldValue :: string
  RuleType :: string
  Message :: string
  Severity :: string
  RowData :: DataRow

record ValidationResult =
  ValidRows :: int
  InvalidRows :: int
  TotalRows :: int
  Errors :: "ValidationError list"
  Warnings :: "ValidationError list"
  FieldStats :: "string \<rightharpoonup> int"
  QualityScore :: real

record ValidateOptions =
  InputFile :: string
  OutputFile :: string
  Rules :: "ValidationRule list"
  FailFast :: bool
  ExportValid :: bool
  ExportInvalid :: bool

text \<open>The pattern of \<open>validateEmail\<close>; it compiles, so \<open>regexp.MustCompile\<close> does not
  panic on it.\<close>

definition emailPattern :: string where
  "emailPattern = ''^[a-zA-Z0-9._%+-]+@[a-zA-Z0-9.-]+'' @ [CHR 0x5C] @ ''.[a-zA-Z]{2,}$''"

definition validateEmail :: "golib \<Rightarrow> string \<Rightarrow> bool" where
  "validateEmail lib email =
     (case regexMatch lib emailPattern email of Some matched \<Rightarrow> matched | None \<Rightarrow> False)"

definition validateNumeric :: "golib \<Rightarrow> string \<Rightarrow> bool" where
  "validateNumeric lib value = (parseFloat lib value \<noteq> None)"

definition validateRegex :: "golib \<Rightarrow> string \<Rightarrow> string \<Rightarrow> bool" where
  "validateRegex lib value pattern =
     (case regexMatch lib pattern value of None \<Rightarrow> False | Some matched \<Rightarrow> matched)"

text \<open>
  The \<open>switch rule.Type\<close> of \<open>validateField\<close>: the pair \<open>(isValid, message)\<close> it leaves
  behind, or \<open>None\<close> for the default branch, which returns a warning at once.
\<close>

definition checkRule :: "golib \<Rightarrow> ValidationRule \<Rightarrow> string \<Rightarrow> (bool \<times> string) option" where
  "checkRule lib rule fieldValue =
     (if Type rule = ''required'' then
        Some (fieldValue \<noteq> [], if fieldValue \<noteq> [] then [] else ''Field is required'')
      else if Type rule = ''email'' then
        Some (validateEmail lib fieldValue,
              if validateEmail lib fieldValue then [] else ''Invalid email format'')
      else if Type rule = ''numeric'' then
        Some (validateNumeric lib fieldValue,
              if validateNumeric lib fieldValue then [] else ''Value must be numeric'')
      else if Type rule = ''regex'' then
        (case Constraints rule of
           VString pattern \<Rightarrow>
             Some (validateRegex lib fieldValue pattern,
                   if validateRegex lib fieldValue pattern then []
                   else ''Value does not match pattern: '' @ pattern)
         | _ \<Rightarrow> Some (False, ''Regex pattern not specified''))
      else if Type rule = ''min_length'' then
        (case Constraints rule of
           VFloat minLength \<Rightarrow>
             Some (int (length fieldValue) \<ge> floatToInt lib minLength,
                   if int (length fieldValue) \<ge> floatToInt lib minLength then []
                   else ''Value must be at least '' @ sprintD lib (floatToInt lib minLength)
                        @ '' characters'')
         | _ \<Rightarrow> Some (False, ''Min length not specified''))
      else if Type rule = ''max_length'' then
        (case Constraints rule of
           VFloat maxLength \<Rightarrow>
             Some (int (length fieldValue) \<le> floatToInt lib maxLength,
                   if int (length fieldValue) \<le> floatToInt lib maxLength then []
                   else ''Value must be at most '' @ sprintD lib (floatToInt lib maxLength)
                        @ '' characters'')
         | _ \<Rightarrow> Some (False, ''Max length not specified''))
      else if Type rule = ''range'' then
        (case Constraints rule of
           VMap constraints \<Rightarrow>
             (case constraints ''min'' of
                Some (VFloat mIn) \<Rightarrow>
                  (case constraints ''max'' of
                     Some (VFloat mAx) \<Rightarrow>
                       (case parseFloat lib fieldValue of
                          Some num \<Rightarrow>
                            Some (num \<ge> mIn \<and> num \<le> mAx,
                                  if num \<ge> mIn \<and> num \<le> mAx then []
                                  else ''Value must be between '' @ sprintF2 lib mIn
                                       @ '' and '' @ sprintF2 lib mAx)
                        | None \<Rightarrow> Some (False, ''Value must be numeric for range validation''))
                   | _ \<Rightarrow> Some (False, ''Max value not specified for range''))
              | _ \<Rightarrow> Some (False, ''Min value not specified for range''))
         | _ \<Rightarrow> Some (False, ''Range constraints not specified''))
      else None)"

text \<open>\<open>fmt.Sprintf("Field '%s' is missing", field)\<close>.\<close>

definition missingMessage :: "string \<Rightarrow> string" where
  "missingMessage field = ''Field '' @ [CHR 0x27] @ field @ [CHR 0x27] @ '' is missing''"

definition validateField :: "golib \<Rightarrow> DataRow \<Rightarrow> ValidationRule \<Rightarrow> int \<Rightarrow> ValidationError option" where
  "validateField lib row rule rowNumber =
     (case Fields row (ValidationRule.Field rule) of
        None \<Rightarrow>
          Some \<lparr>RowNumber = rowNumber, FieldName = ValidationRule.Field rule, FieldValue = [],
                RuleType = Type rule,
                Message = missingMessage (ValidationRule.Field rule),
                Severity = ''error'', RowData = row\<rparr>
      | Some fieldValue \<Rightarrow>
          (case checkRule lib rule fieldValue of
             None \<Rightarrow>
               Some \<lparr>RowNumber = rowNumber, FieldName = ValidationRule.Field rule,
                     FieldValue = fieldValue, RuleType = Type rule,
                     Message = ''Unknown validation rule type: '' @ Type rule,
                     Severity = ''warning'', RowData = row\<rparr>
           | Some (isValid, message) \<Rightarrow>
               if \<not> isValid then
                 Some \<lparr>RowNumber = rowNumber, FieldName = ValidationRule.Field rule,
                       FieldValue = fieldValue, RuleType = Type rule,
                       Message = (if ValidationRule.Message rule \<noteq> []
                                  then ValidationRule.Message rule else message),
                       Severity = (if Type rule = ''regex'' \<or> Type rule = ''min_length''
                                        \<or> Type rule = ''max_length''
                                   then ''warning'' else ''error''),
                       RowData = row\<rparr>
               else None))"

text \<open>\<open>validateRow\<close> runs the rules in order; \<open>errors\<close> and \<open>warnings\<close> are the slices
  built so far.\<close>

fun validateRules ::
  "golib \<Rightarrow> DataRow \<Rightarrow> int \<Rightarrow> ValidationRule list
     \<Rightarrow> ValidationError list \<times> ValidationError list
     \<Rightarrow> ValidationError list \<times> ValidationError list" where
  "validateRules lib row rowNumber [] acc = acc"
| "validateRules lib row rowNumber (rule # rules) (errors, warnings) =
     (case validateField lib row rule rowNumber of
        None \<Rightarrow> validateRules lib row rowNumber rules (errors, warnings)
      | Some validationError \<Rightarrow>
          if Severity validationError = ''error''
          then validateRules lib row rowNumber rules (errors @ [validationError], warnings)
          else validateRules lib row rowNumber rules (errors, warnings @ [validationError]))"

definition validateRow ::
  "golib \<Rightarrow> DataRow \<Rightarrow> ValidationRule list \<Rightarrow> int \<Rightarrow> ValidationError list \<times> ValidationError list" where
  "validateRow lib row rules rowNumber = validateRules lib row rowNumber rules ([], [])"

definition calculateQualityScore :: "ValidationResult \<Rightarrow> real" where
  "calculateQualityScore result =
     (if TotalRows result = 0 then 0
      else
        let score = real_of_int (ValidRows result) / real_of_int (TotalRows result) * 100;
            warningPenalty =
              real (length (Warnings result)) / real_of_int (TotalRows result) * 5;
            score = score - warningPenalty;
            score = (if score < 0 then 0 else score);
            score = (if score > 100 then 100 else score)
        in score)"

text \<open>The field statistics: \<open>for field := range row.Fields { result.FieldStats[field]++ }\<close>,
  where a missing key reads as 0.\<close>

definition countFields :: "DataRow \<Rightarrow> (string \<rightharpoonup> int) \<Rightarrow> (string \<rightharpoonup> int)" where
  "countFields row stats =
     (\<lambda>field. if Fields row field \<noteq> None
               then Some ((case stats field of None \<Rightarrow> 0 | Some n \<Rightarrow> n) + 1)
               else stats field)"

text \<open>
  One pass of the loop of \<open>validateData\<close> over the row with index \<open>i\<close>: the updated
  result and row lists, and whether the loop breaks after it.
\<close>

definition validateStep ::
  "golib \<Rightarrow> ValidateOptions \<Rightarrow> nat \<Rightarrow> DataRow
     \<Rightarrow> ValidationResult \<times> DataRow list \<times> DataRow list
     \<Rightarrow> (ValidationResult \<times> DataRow list \<times> DataRow list) \<times> bool" where
  "validateStep lib opts i row st =
     (case st of (result, validData, invalidData) \<Rightarrow>
      case validateRow lib row (ValidateOptions.Rules opts) (int i + 1) of
        (rowErrors, rowWarnings) \<Rightarrow>
          let (result, validData, invalidData) =
                (if length rowErrors > 0
                 then (result\<lparr>Errors := Errors result @ rowErrors,
                               InvalidRows := InvalidRows result + 1\<rparr>,
                       validData, invalidData @ [row])
                 else (result\<lparr>ValidRows := ValidRows result + 1\<rparr>,
                       validData @ [row], invalidData));
              result = result\<lparr>Warnings := Warnings result @ rowWarnings\<rparr>;
              result = result\<lparr>FieldStats := countFields row (FieldStats result)\<rparr>
          in ((result, validData, invalidData), FailFast opts \<and> length rowErrors > 0))"

fun validateLoop ::
  "golib \<Rightarrow> ValidateOptions \<Rightarrow> nat \<Rightarrow> DataRow list
     \<Rightarrow> ValidationResult \<times> DataRow list \<times> DataRow list
     \<Rightarrow> ValidationResult \<times> DataRow list \<times> DataRow list" where
  "validateLoop lib opts i [] st = st"
| "validateLoop lib opts i (row # rows) st =
     (case validateStep lib opts i row st of
        (st', stop) \<Rightarrow> if stop then st' else validateLoop lib opts (Suc i) rows st')"

definition validateData ::
  "golib \<Rightarrow> DataRow list \<Rightarrow> ValidateOptions \<Rightarrow> ValidationResult \<times> DataRow list \<times> DataRow list" where
  "validateData lib data opts =
     (case validateLoop lib opts 0 data
             (\<lparr>ValidRows = 0, InvalidRows = 0, TotalRows = int (length data), Errors = [],
               Warnings = [], FieldStats = Map.empty, QualityScore = 0\<rparr>, [], []) of
        (result, validData, invalidData) \<Rightarrow>
          (result\<lparr>QualityScore := calculateQualityScore result\<rparr>, validData, invalidData))"

section \<open>Transform engine\<close>

record TransformRule =
  Field :: string
  Operation :: string
  Parameters :: "string \<rightharpoonup> anyval"
  TargetField :: string

record TransformOptions =
  InputFile :: string
  OutputFile :: string
  Rules :: "TransformRule list"
  KeepFields :: bool
  DropNulls :: bool

text \<open>A run-time panic of the Go program: \<open>applyExtract\<close> indexes the match slice with
  \<open>int(group)\<close>, which it has only compared with the length from above.\<close>

datatype panic = IndexOutOfRange

definition applyReplace :: "golib \<Rightarrow> string \<Rightarrow> (string \<rightharpoonup> anyval) \<Rightarrow> string" where
  "applyReplace lib value params =
     (case params ''old'' of
        Some (VString oldStr) \<Rightarrow>
          (let newStr = (case params ''new'' of Some (VString n) \<Rightarrow> n | _ \<Rightarrow> [])
           in strReplaceAll lib value oldStr newStr)
      | _ \<Rightarrow> value)"

definition applyExtract :: "golib \<Rightarrow> string \<Rightarrow> (string \<rightharpoonup> anyval) \<Rightarrow> panic + string" where
  "applyExtract lib value params =
     (case params ''pattern'' of
        Some (VString pattern) \<Rightarrow>
          (let group = (case params ''group'' of Some (VFloat g) \<Rightarrow> g | _ \<Rightarrow> 0)
           in case regexFindSubmatch lib pattern value of
                None \<Rightarrow> Inr value
              | Some matches \<Rightarrow>
                  if int (length matches) > floatToInt lib group
                  then (if floatToInt lib group < 0 then Inl IndexOutOfRange
                        else Inr (matches ! nat (floatToInt lib group)))
                  else Inr value)
      | _ \<Rightarrow> Inr value)"

definition applySplit :: "golib \<Rightarrow> string \<Rightarrow> (string \<rightharpoonup> anyval) \<Rightarrow> string" where
  "applySplit lib value params =
     (let separator = (case params ''separator'' of Some (VString s) \<Rightarrow> s | _ \<Rightarrow> '','');
          joinWith = (case params ''join_with'' of Some (VString s) \<Rightarrow> s | _ \<Rightarrow> []);
          parts = strSplit lib value separator
      in if joinWith \<noteq> [] then joinStr parts joinWith
         else (case parts of p # _ \<Rightarrow> p | [] \<Rightarrow> value))"

definition applyJoin :: "golib \<Rightarrow> string \<Rightarrow> (string \<rightharpoonup> anyval) \<Rightarrow> string" where
  "applyJoin lib value params =
     (let separator = (case params ''separator'' of Some (VString s) \<Rightarrow> s | _ \<Rightarrow> '','');
          parts = map (strTrimSpace lib) (strSplit lib value '','')
      in joinStr parts separator)"

definition applyCalculate :: "golib \<Rightarrow> string \<Rightarrow> (string \<rightharpoonup> anyval) \<Rightarrow> string" where
  "applyCalculate lib value params =
     (case params ''operation'' of
        Some (VString operation) \<Rightarrow>
          (case params ''operand'' of
             Some (VFloat operand) \<Rightarrow>
               (case parseFloat lib value of
                  None \<Rightarrow> value
                | Some numValue \<Rightarrow>
                    if operation = ''add'' then sprintF2 lib (numValue + operand)
                    else if operation = ''subtract'' then sprintF2 lib (numValue - operand)
                    else if operation = ''multiply'' then sprintF2 lib (numValue * operand)
                    else if operation = ''divide'' then
                      (if operand \<noteq> 0 then sprintF2 lib (numValue / operand) else ''0'')
                    else value)
           | _ \<Rightarrow> value)
      | _ \<Rightarrow> value)"

definition conditionHolds :: "golib \<Rightarrow> string \<Rightarrow> string \<Rightarrow> string \<Rightarrow> bool" where
  "conditionHolds lib operator fieldValue value =
     (if operator = ''equals'' then fieldValue = value
      else if operator = ''not_equals'' then fieldValue \<noteq> value
      else if operator = ''contains'' then containsStr fieldValue value
      else if operator = ''greater_than'' then
        (case parseFloat lib fieldValue of
           Some num1 \<Rightarrow> (case parseFloat lib value of Some num2 \<Rightarrow> num1 > num2 | None \<Rightarrow> False)
         | None \<Rightarrow> False)
      else if operator = ''less_than'' then
        (case parseFloat lib fieldValue of
           Some num1 \<Rightarrow> (case parseFloat lib value of Some num2 \<Rightarrow> num1 < num2 | None \<Rightarrow> False)
         | None \<Rightarrow> False)
      else False)"

definition applyConditional :: "golib \<Rightarrow> DataRow \<Rightarrow> (string \<rightharpoonup> anyval) \<Rightarrow> string" where
  "applyConditional lib row params =
     (case params ''field'' of
        Some (VString field) \<Rightarrow>
          (case params ''operator'' of
             Some (VString operator) \<Rightarrow>
               (case params ''value'' of
                  Some (VString value) \<Rightarrow>
                    (let trueResult =
                           (case params ''true_result'' of Some (VString s) \<Rightarrow> s | _ \<Rightarrow> ''true'');
                         falseResult =
                           (case params ''false_result'' of Some (VString s) \<Rightarrow> s | _ \<Rightarrow> ''false'')
                     in case Fields row field of
                          None \<Rightarrow> falseResult
                        | Some fieldValue \<Rightarrow>
                            if conditionHolds lib operator fieldValue value
                            then trueResult else falseResult)
                | _ \<Rightarrow> [])
           | _ \<Rightarrow> [])
      | _ \<Rightarrow> [])"

definition applyTransformRule :: "golib \<Rightarrow> DataRow \<Rightarrow> TransformRule \<Rightarrow> panic + string" where
  "applyTransformRule lib row rule =
     (case Fields row (TransformRule.Field rule) of
        None \<Rightarrow> Inr []
      | Some fieldValue \<Rightarrow>
          if TransformRule.Operation rule = ''upper_case'' then Inr (toUpper fieldValue)
          else if TransformRule.Operation rule = ''lower_case'' then Inr (toLower fieldValue)
          else if TransformRule.Operation rule = ''title_case'' then
            Inr (strTitle lib (toLower fieldValue))
          else if TransformRule.Operation rule = ''trim'' then Inr (strTrimSpace lib fieldValue)
          else if TransformRule.Operation rule = ''replace'' then
            Inr (applyReplace lib fieldValue (Parameters rule))
          else if TransformRule.Operation rule = ''extract'' then
            applyExtract lib fieldValue (Parameters rule)
          else if TransformRule.Operation rule = ''split'' then
            Inr (applySplit lib fieldValue (Parameters rule))
          else if TransformRule.Operation rule = ''join'' then
            Inr (applyJoin lib fieldValue (Parameters rule))
          else if TransformRule.Operation rule = ''calculate'' then
            Inr (applyCalculate lib fieldValue (Parameters rule))
          else if TransformRule.Operation rule = ''conditional'' then
            Inr (applyConditional lib row (Parameters rule))
          else Inr fieldValue)"

text \<open>The target of a rule: its \<open>TargetField\<close>, or its source field when that is empty.\<close>

definition targetField :: "TransformRule \<Rightarrow> string" where
  "targetField rule =
     (if TargetField rule = [] then TransformRule.Field rule else TargetField rule)"

text \<open>The rule loop of \<open>transformRow\<close>: every rule reads the original row and writes into
  the row under construction; a panic ends the run.\<close>

fun applyRules ::
  "golib \<Rightarrow> DataRow \<Rightarrow> TransformRule list \<Rightarrow> (string \<rightharpoonup> string) \<Rightarrow> panic + (string \<rightharpoonup> string)" where
  "applyRules lib row [] acc = Inr acc"
| "applyRules lib row (rule # rules) acc =
     (case applyTransformRule lib row rule of
        Inl p \<Rightarrow> Inl p
      | Inr result \<Rightarrow> applyRules lib row rules (acc(targetField rule \<mapsto> result)))"

definition transformRow :: "golib \<Rightarrow> DataRow \<Rightarrow> TransformOptions \<Rightarrow> panic + DataRow" where
  "transformRow lib row opts =
     (case applyRules lib row (TransformOptions.Rules opts)
             (if KeepFields opts then Fields row else Map.empty) of
        Inl p \<Rightarrow> Inl p
      | Inr acc \<Rightarrow> Inr \<lparr>Fields = acc\<rparr>)"

fun transformData :: "golib \<Rightarrow> DataRow list \<Rightarrow> TransformOptions \<Rightarrow> panic + DataRow list" where
  "transformData lib [] opts = Inr []"
| "transformData lib (row # data) opts =
     (case transformRow lib row opts of
        Inl p \<Rightarrow> Inl p
      | Inr transformedRow \<Rightarrow>
          (case transformData lib data opts of
             Inl p \<Rightarrow> Inl p
           | Inr transformedData \<Rightarrow> Inr (transformedRow # transformedData)))"

section \<open>A library instance for evaluation\<close>

text \<open>
  To evaluate the engines on concrete rows the library parameter needs a value.
  \<open>tableLib tbl\<close> parses exactly the strings listed in \<open>tbl\<close>, to the numbers listed with
  them, as \<open>strconv.ParseFloat\<close> does on those strings, and converts a \<open>float64\<close> to
  an \<open>int\<close> by truncation towards zero. It is used only on inputs whose evaluation calls
  no other library function: regular expressions, formatting and the remaining string
  functions are never applied there, and their entries say nothing about Go's.
\<close>

definition tableLib :: "(string \<times> real) list \<Rightarrow> golib" where
  "tableLib tbl =
     \<lparr>parseFloat = map_of tbl,
      regexMatch = (\<lambda>pattern s. None),
      regexFindSubmatch = (\<lambda>pattern s. None),
      sprintV = (\<lambda>v. []),
      sprintD = (\<lambda>n. []),
      sprintF2 = (\<lambda>x. []),
      floatToInt = (\<lambda>x. if x < 0 then \<lceil>x\<rceil> else \<lfloor>x\<rfloor>),
      strTitle = (\<lambda>s. s),
      strTrimSpace = (\<lambda>s. s),
      strReplaceAll = (\<lambda>s old new. s),
      strSplit = (\<lambda>s sep. [s])\<rparr>"

section \<open>Sample inputs\<close>

text \<open>The rows of the specification's scenarios, the rules applied to them, and a file
  service for in-memory runs (no file is read, every write succeeds).\<close>

definition sampleLib :: golib where
  "sampleLib = tableLib [(''30'', 30), (''17'', 17), (''10'', 10)]"

definition memFiles :: FileService where
  "memFiles = \<lparr>ReadCSV = (\<lambda>path. Inl ''open: no such file''),
               WriteJSON = (\<lambda>path rows. None)\<rparr>"

definition rowAlice :: DataRow where
  "rowAlice = \<lparr>Fields = [''name'' \<mapsto> ''Alice'', ''age'' \<mapsto> ''30'']\<rparr>"

definition rowBob :: DataRow where
  "rowBob = \<lparr>Fields = [''name'' \<mapsto> ''bob'', ''age'' \<mapsto> ''17'']\<rparr>"

definition rowCarol :: DataRow where
  "rowCarol = \<lparr>Fields = [''name'' \<mapsto> ''carol'', ''age'' \<mapsto> ''n/a'']\<rparr>"

definition rowDave :: DataRow where
  "rowDave = \<lparr>Fields = [''name'' \<mapsto> ''dave'', ''email'' \<mapsto> ''dave@example.com'']\<rparr>"

definition rowActive :: DataRow where
  "rowActive = \<lparr>Fields = [''status'' \<mapsto> ''active'', ''name'' \<mapsto> ''Alice'']\<rparr>"

definition rowWidget :: DataRow where
  "rowWidget = \<lparr>Fields = [''category'' \<mapsto> ''tools'', ''price'' \<mapsto> ''10'']\<rparr>"

definition rowGadget :: DataRow where
  "rowGadget = \<lparr>Fields = [''category'' \<mapsto> ''tools'', ''price'' \<mapsto> ''abc'']\<rparr>"

definition ageOver18 :: FilterOptions where
  "ageOver18 = \<lparr>FilterOptions.InputFile = [], FilterOptions.OutputFile = [],
      FilterOptions.Rules =
        [\<lparr>FilterRule.Field = ''age'', Operator = ''greater_than'', Value = VFloat 18\<rparr>],
      Inclusive = True\<rparr>"

definition emailNotSpam :: FilterOptions where
  "emailNotSpam = \<lparr>FilterOptions.InputFile = [], FilterOptions.OutputFile = [],
      FilterOptions.Rules =
        [\<lparr>FilterRule.Field = ''email'', Operator = ''not_contains'', Value = VString ''spam''\<rparr>],
      Inclusive = True\<rparr>"

definition priceRule :: "string \<Rightarrow> AggregateRule" where
  "priceRule operation =
     \<lparr>AggregateRule.Field = ''price'', AggregateRule.Operation = operation, Alias = []\<rparr>"

definition requireEmail :: ValidateOptions where
  "requireEmail = \<lparr>ValidateOptions.InputFile = [], ValidateOptions.OutputFile = [],
      ValidateOptions.Rules =
        [\<lparr>ValidationRule.Field = ''email'', Type = ''required'', Constraints = VNil,
          ValidationRule.Message = []\<rparr>],
      FailFast = False, ExportValid = False, ExportInvalid = False\<rparr>"

definition customEmail :: ValidationRule where
  "customEmail = \<lparr>ValidationRule.Field = ''email'', Type = ''custom'', Constraints = VNil,
                  ValidationRule.Message = []\<rparr>"

text \<open>Transform options with one rule on a field, writing back to the field itself, and the
  two ways of applying \<open>upper_case\<close> and then \<open>lower_case\<close> to it: as two runs, the second on
  the output row of the first, or as two rules of one run.\<close>

definition caseRule :: "string \<Rightarrow> string \<Rightarrow> TransformRule" where
  "caseRule field operation =
     \<lparr>TransformRule.Field = field, TransformRule.Operation = operation,
      Parameters = Map.empty, TargetField = []\<rparr>"

definition withRules :: "TransformRule list \<Rightarrow> TransformOptions" where
  "withRules rules =
     \<lparr>TransformOptions.InputFile = [], TransformOptions.OutputFile = [],
      TransformOptions.Rules = rules, KeepFields = True, DropNulls = False\<rparr>"

definition upperThenLower :: "golib \<Rightarrow> DataRow \<Rightarrow> string \<Rightarrow> panic + DataRow" where
  "upperThenLower lib row field =
     (case transformRow lib row (withRules [caseRule field ''upper_case'']) of
        Inl p \<Rightarrow> Inl p
      | Inr upper \<Rightarrow> transformRow lib upper (withRules [caseRule field ''lower_case'']))"

definition upperAndLower :: "golib \<Rightarrow> DataRow \<Rightarrow> string \<Rightarrow> panic + DataRow" where
  "upperAndLower lib row field =
     transformRow lib row
       (withRules [caseRule field ''upper_case'', caseRule field ''lower_case''])"

section \<open>Properties of the filter engine\<close>

lemma matchesAllRules_iff:
  "matchesAllRules lib row rules = (\<forall>rule \<in> set rules. matchesRule lib row rule)"
  by (induction rules) auto

lemma matchesRule_missing:
  "Fields row (FilterRule.Field rule) = None \<Longrightarrow> \<not> matchesRule lib row rule"
  by (simp add: matchesRule_def)

lemma keepRow_Inclusive:
  "keepRow lib (opts\<lparr>Inclusive := True\<rparr>) =
     (\<lambda>row. matchesAllRules lib row (FilterOptions.Rules opts))"
  "keepRow lib (opts\<lparr>Inclusive := False\<rparr>) =
     (\<lambda>row. \<not> matchesAllRules lib row (FilterOptions.Rules opts))"
  by (simp_all add: keepRow_def fun_eq_iff)

lemma filterInput_Inclusive:
  "filterInput fs input (opts\<lparr>Inclusive := b\<rparr>) = filterInput fs input opts"
  by (simp add: filterInput_def)

lemma ProcessData_Inr:
  assumes "ProcessData lib fs input opts = Inr out"
  shows "\<exists>rows. filterInput fs input opts = Inr rows \<and> out = filter (keepRow lib opts) rows"
  using assms
  by (auto simp: ProcessData_def Let_def split: sum.splits if_splits option.splits)

text \<open>The filter returns whenever the read (if there is one) and the write (if there is
  one) succeed.\<close>

lemma ProcessData_returns:
  assumes "filterInput fs input opts = Inr rows"
      and "FilterOptions.OutputFile opts = [] \<or>
           WriteJSON fs (FilterOptions.OutputFile opts) (filter (keepRow lib opts) rows) = None"
  shows "ProcessData lib fs input opts = Inr (filter (keepRow lib opts) rows)"
  using assms by (auto simp: ProcessData_def Let_def)

text \<open>
  Claim C1 (filter complement). Run the filter twice on the same input and rule set, once
  with \<open>inclusive = true\<close> and once with \<open>inclusive = false\<close>. The two results have no
  row in common, and the rows the filter worked on (the input, or the rows read from the input
  file when the input is empty) are an interleaving of the two results: every row of the
  input is in exactly one of them, as often as in the input and in the input's order.
\<close>

theorem filter_complement:
  assumes "ProcessData lib fs input (opts\<lparr>Inclusive := True\<rparr>) = Inr yes"
      and "ProcessData lib fs input (opts\<lparr>Inclusive := False\<rparr>) = Inr no"
  shows "\<exists>rows. filterInput fs input opts = Inr rows
           \<and> (input \<noteq> [] \<longrightarrow> rows = input)
           \<and> set yes \<inter> set no = {}
           \<and> rows \<in> shuffles yes no
           \<and> mset yes + mset no = mset rows"
proof -
  let ?P = "\<lambda>row. matchesAllRules lib row (FilterOptions.Rules opts)"
  from ProcessData_Inr [OF assms(1)] obtain rows where
    rows: "filterInput fs input opts = Inr rows" and yes: "yes = filter ?P rows"
    by (auto simp: filterInput_Inclusive keepRow_Inclusive)
  from ProcessData_Inr [OF assms(2)] rows have no: "no = filter (\<lambda>row. \<not> ?P row) rows"
    by (auto simp: filterInput_Inclusive keepRow_Inclusive)
  have "input \<noteq> [] \<longrightarrow> rows = input"
    using rows by (auto simp: filterInput_def)
  moreover have "set yes \<inter> set no = {}"
    unfolding yes no by auto
  moreover have "rows \<in> shuffles yes no"
    unfolding yes no by (rule partition_in_shuffles)
  moreover have "mset yes + mset no = mset rows"
    unfolding yes no by simp
  ultimately show ?thesis using rows by blast
qed

theorem filter_complement_witness:
  "ProcessData sampleLib memFiles [rowAlice, rowBob] (ageOver18\<lparr>Inclusive := True\<rparr>)
     = Inr [rowAlice]
   \<and> ProcessData sampleLib memFiles [rowAlice, rowBob] (ageOver18\<lparr>Inclusive := False\<rparr>)
       = Inr [rowBob]
   \<and> set [rowAlice] \<inter> set [rowBob] = {}
   \<and> [rowAlice, rowBob] \<in> shuffles [rowAlice] [rowBob]
   \<and> mset [rowAlice] + mset [rowBob] = mset [rowAlice, rowBob]"
proof -
  have yes: "ProcessData sampleLib memFiles [rowAlice, rowBob] (ageOver18\<lparr>Inclusive := True\<rparr>)
             = Inr [rowAlice]"
    by (simp add: ProcessData_def filterInput_def keepRow_def matchesRule_def numericCompare_def
        sampleLib_def tableLib_def memFiles_def rowAlice_def rowBob_def ageOver18_def)
  have no: "ProcessData sampleLib memFiles [rowAlice, rowBob] (ageOver18\<lparr>Inclusive := False\<rparr>)
            = Inr [rowBob]"
    by (simp add: ProcessData_def filterInput_def keepRow_def matchesRule_def numericCompare_def
        sampleLib_def tableLib_def memFiles_def rowAlice_def rowBob_def ageOver18_def)
  from filter_complement [OF yes no] obtain rows where
    "rows = [rowAlice, rowBob]" "set [rowAlice] \<inter> set [rowBob] = {}"
    "rows \<in> shuffles [rowAlice] [rowBob]" "mset [rowAlice] + mset [rowBob] = mset rows"
    by blast
  with yes no show ?thesis by simp
qed

text \<open>
  Claim C7 (numeric ordering fails closed). For a rule with operator \<open>greater_than\<close> or
  \<open>less_than\<close> on a field the row has: if the field value does not parse as a float the
  rule does not match; if the rule's value is a string that does not parse, or neither a
  number nor a string, the rule does not match; if both sides are numbers the rule matches
  exactly when the field's number is greater (less) than the rule's. The result is always a
  truth value: \<open>matchesRule\<close> has no error result.
\<close>

theorem numeric_ordering_fails_closed:
  assumes "Operator rule = ''greater_than'' \<or> Operator rule = ''less_than''"
      and "Fields row (FilterRule.Field rule) = Some fieldValue"
  shows "(parseFloat lib fieldValue = None \<longrightarrow> \<not> matchesRule lib row rule)
       \<and> (\<forall>s. Value rule = VString s \<and> parseFloat lib s = None \<longrightarrow> \<not> matchesRule lib row rule)
       \<and> ((\<forall>s. Value rule \<noteq> VString s) \<and> (\<forall>b. Value rule \<noteq> VFloat b) \<and> (\<forall>n. Value rule \<noteq> VInt n)
             \<longrightarrow> \<not> matchesRule lib row rule)
       \<and> (\<forall>a b s. parseFloat lib fieldValue = Some a \<and> Value rule = VString s
                  \<and> parseFloat lib s = Some b
             \<longrightarrow> matchesRule lib row rule
                   = (if Operator rule = ''greater_than'' then a > b else a < b))
       \<and> (\<forall>a b. parseFloat lib fieldValue = Some a \<and> Value rule = VFloat b
             \<longrightarrow> matchesRule lib row rule
                   = (if Operator rule = ''greater_than'' then a > b else a < b))
       \<and> (\<forall>a n. parseFloat lib fieldValue = Some a \<and> Value rule = VInt n
             \<longrightarrow> matchesRule lib row rule
                   = (if Operator rule = ''greater_than'' then a > of_int n else a < of_int n))"
  using assms
  by (auto simp: matchesRule_def numericCompare_def split: anyval.splits option.splits)

theorem numeric_ordering_fails_closed_witness:
  "(Operator (hd (FilterOptions.Rules ageOver18)) = ''greater_than''
      \<or> Operator (hd (FilterOptions.Rules ageOver18)) = ''less_than'')
   \<and> Fields rowCarol (FilterRule.Field (hd (FilterOptions.Rules ageOver18))) = Some ''n/a''
   \<and> parseFloat sampleLib ''n/a'' = None
   \<and> \<not> matchesRule sampleLib rowCarol (hd (FilterOptions.Rules ageOver18))"
proof -
  have op: "Operator (hd (FilterOptions.Rules ageOver18)) = ''greater_than''
              \<or> Operator (hd (FilterOptions.Rules ageOver18)) = ''less_than''"
    by (simp add: ageOver18_def)
  have fld: "Fields rowCarol (FilterRule.Field (hd (FilterOptions.Rules ageOver18))) = Some ''n/a''"
    by (simp add: ageOver18_def rowCarol_def)
  have unparsed: "parseFloat sampleLib ''n/a'' = None"
    by (simp add: sampleLib_def tableLib_def)
  from numeric_ordering_fails_closed [OF op fld, of sampleLib] unparsed
  have "\<not> matchesRule sampleLib rowCarol (hd (FilterOptions.Rules ageOver18))"
    by blast
  with op fld unparsed show ?thesis by simp
qed

text \<open>
  Claim C10 (a missing field never matches). A row without the field a rule names does not
  match that rule, whatever the operator, the negated operators \<open>not_equals\<close> and
  \<open>not_contains\<close> included. So a row that lacks the field of some rule of the set is not in
  the output of the filter under \<open>inclusive = true\<close>, and is in the output under
  \<open>inclusive = false\<close> whenever it is in the rows filtered.
\<close>

theorem missing_field_excluded:
  assumes "rule \<in> set (FilterOptions.Rules opts)"
      and "Fields row (FilterRule.Field rule) = None"
  shows "\<not> matchesRule lib row rule
       \<and> (\<forall>out. ProcessData lib fs input (opts\<lparr>Inclusive := True\<rparr>) = Inr out
             \<longrightarrow> row \<notin> set out)
       \<and> (\<forall>out rows. ProcessData lib fs input (opts\<lparr>Inclusive := False\<rparr>) = Inr out
                \<and> filterInput fs input opts = Inr rows \<and> row \<in> set rows
             \<longrightarrow> row \<in> set out)"
proof -
  have m: "\<not> matchesRule lib row rule"
    using assms(2) by (rule matchesRule_missing)
  then have all: "\<not> matchesAllRules lib row (FilterOptions.Rules opts)"
    using assms(1) by (auto simp: matchesAllRules_iff)
  have "row \<notin> set out"
    if "ProcessData lib fs input (opts\<lparr>Inclusive := True\<rparr>) = Inr out" for out
    using ProcessData_Inr [OF that] all by (auto simp: keepRow_Inclusive)
  moreover have "row \<in> set out"
    if "ProcessData lib fs input (opts\<lparr>Inclusive := False\<rparr>) = Inr out"
      and "filterInput fs input opts = Inr rows" and "row \<in> set rows" for out rows
    using ProcessData_Inr [OF that(1)] that(2,3) all
    by (auto simp: keepRow_Inclusive filterInput_Inclusive)
  ultimately show ?thesis using m by blast
qed

theorem missing_field_excluded_witness:
  "hd (FilterOptions.Rules emailNotSpam) \<in> set (FilterOptions.Rules emailNotSpam)
   \<and> Operator (hd (FilterOptions.Rules emailNotSpam)) = ''not_contains''
   \<and> Fields rowAlice (FilterRule.Field (hd (FilterOptions.Rules emailNotSpam))) = None
   \<and> \<not> matchesRule sampleLib rowAlice (hd (FilterOptions.Rules emailNotSpam))
   \<and> ProcessData sampleLib memFiles [rowAlice] (emailNotSpam\<lparr>Inclusive := True\<rparr>) = Inr []
   \<and> ProcessData sampleLib memFiles [rowAlice] (emailNotSpam\<lparr>Inclusive := False\<rparr>)
       = Inr [rowAlice]"
proof -
  have a: "hd (FilterOptions.Rules emailNotSpam) \<in> set (FilterOptions.Rules emailNotSpam)"
    by (simp add: emailNotSpam_def)
  have b: "Fields rowAlice (FilterRule.Field (hd (FilterOptions.Rules emailNotSpam))) = None"
    by (simp add: emailNotSpam_def rowAlice_def)
  have c: "Operator (hd (FilterOptions.Rules emailNotSpam)) = ''not_contains''"
    by (simp add: emailNotSpam_def)
  from missing_field_excluded [OF a b, of sampleLib]
  have m: "\<not> matchesRule sampleLib rowAlice (hd (FilterOptions.Rules emailNotSpam))"
    by blast
  then have "\<not> matchesAllRules sampleLib rowAlice (FilterOptions.Rules emailNotSpam)"
    by (simp add: emailNotSpam_def)
  then have "ProcessData sampleLib memFiles [rowAlice] (emailNotSpam\<lparr>Inclusive := True\<rparr>) = Inr []"
    and "ProcessData sampleLib memFiles [rowAlice] (emailNotSpam\<lparr>Inclusive := False\<rparr>)
           = Inr [rowAlice]"
    by (simp_all add: ProcessData_def filterInput_def keepRow_def emailNotSpam_def)
  with a b c m show ?thesis by simp
qed

section \<open>Properties of the aggregate engine\<close>

lemma MaxFloat64_pos: "0 < MaxFloat64"
  by (simp add: MaxFloat64_def)

text \<open>A reducer loop that only acts on values that parse leaves its start value alone when
  no value of the group parses.\<close>

lemma foldl_unparsed:
  "\<forall>row \<in> set data. parseFloat lib (fieldOrEmpty row field) = None \<Longrightarrow>
   foldl (\<lambda>m row. case parseFloat lib (fieldOrEmpty row field) of
                     Some val \<Rightarrow> g val m
                   | None \<Rightarrow> m) a data = a"
  by (induction data arbitrary: a) simp_all

lemma calculateMin_unparsed:
  assumes "data \<noteq> []"
      and "\<forall>row \<in> set data. parseFloat lib (fieldOrEmpty row field) = None"
  shows "calculateMin lib data field = MaxFloat64"
  using assms(1)
    foldl_unparsed [OF assms(2), of "\<lambda>val mIn. if val < mIn then val else mIn" MaxFloat64]
  by (simp add: calculateMin_def)

lemma calculateMax_unparsed:
  assumes "data \<noteq> []"
      and "\<forall>row \<in> set data. parseFloat lib (fieldOrEmpty row field) = None"
  shows "calculateMax lib data field = - MaxFloat64"
  using assms(1)
    foldl_unparsed [OF assms(2), of "\<lambda>val mAx. if val > mAx then val else mAx" "- MaxFloat64"]
  by (simp add: calculateMax_def)

text \<open>
  Claim C3 (\<open>min\<close> and \<open>max\<close> of a group without numeric values). The claim says the result
  is 0. The code starts the minimum at \<open>math.MaxFloat64\<close> and the maximum at
  \<open>-math.MaxFloat64\<close> and returns the start value when no value of a non-empty group parses
  (\<open>calculateMin_unparsed\<close>, \<open>calculateMax_unparsed\<close>); it returns 0 only for a group
  without rows, which grouping never produces. On the group of the single row
  \<open>{category: "tools", price: "abc"}\<close>, grouped by \<open>category\<close>, \<open>min\<close> of \<open>price\<close> is
  \<open>MaxFloat64\<close> and \<open>max\<close> is \<open>-MaxFloat64\<close>, neither of them 0, while the summary reducer
  \<open>calculateFieldStats\<close> gives 0 for both on the same rows.
\<close>

theorem min_max_of_unparsed_group:
  "groupData [rowGadget] [''category''] ''tools'' = Some [rowGadget]
   \<and> parseFloat sampleLib (fieldOrEmpty rowGadget ''price'') = None
   \<and> applyAggregateRule sampleLib [rowGadget] (priceRule ''min'') = AggFloat MaxFloat64
   \<and> applyAggregateRule sampleLib [rowGadget] (priceRule ''max'') = AggFloat (- MaxFloat64)
   \<and> MaxFloat64 \<noteq> 0 \<and> - MaxFloat64 \<noteq> 0
   \<and> Min (calculateFieldStats sampleLib [rowGadget] ''price'') = 0
   \<and> Max (calculateFieldStats sampleLib [rowGadget] ''price'') = 0"
proof -
  have p: "parseFloat sampleLib (fieldOrEmpty rowGadget ''price'') = None"
    by (simp add: sampleLib_def tableLib_def fieldOrEmpty_def rowGadget_def)
  have v: "fieldOrEmpty rowGadget ''price'' = ''abc''"
    by (simp add: fieldOrEmpty_def rowGadget_def)
  have g: "groupData [rowGadget] [''category''] ''tools'' = Some [rowGadget]"
    by (simp add: groupData_def createGroupKey_def fieldOrEmpty_def rowGadget_def Let_def)
  have "applyAggregateRule sampleLib [rowGadget] (priceRule ''min'') = AggFloat MaxFloat64"
    using p by (simp add: applyAggregateRule_def priceRule_def calculateMin_def)
  moreover
  have "applyAggregateRule sampleLib [rowGadget] (priceRule ''max'') = AggFloat (- MaxFloat64)"
    using p by (simp add: applyAggregateRule_def priceRule_def calculateMax_def)
  moreover have "Min (calculateFieldStats sampleLib [rowGadget] ''price'') = 0"
    "Max (calculateFieldStats sampleLib [rowGadget] ''price'') = 0"
    using p by (simp_all add: calculateFieldStats_def fieldStatsStep_def v)
  ultimately show ?thesis
    using p g MaxFloat64_pos by simp
qed

text \<open>The sum skips the values that do not parse: it is the sum of the values that do.\<close>

lemma foldl_sum_parsed:
  "foldl (\<lambda>sum row. case parseFloat lib (fieldOrEmpty row field) of
                       Some val \<Rightarrow> sum + val
                     | None \<Rightarrow> sum) a data
     = a + sum_list (List.map_filter (\<lambda>row. parseFloat lib (fieldOrEmpty row field)) data)"
  by (induction data arbitrary: a) (simp_all add: List.map_filter_simps split: option.splits)

lemma calculateSum_parsed:
  "calculateSum lib data field
     = sum_list (List.map_filter (\<lambda>row. parseFloat lib (fieldOrEmpty row field)) data)"
  by (simp add: calculateSum_def foldl_sum_parsed)

lemma calculateAverage_rows:
  "data \<noteq> [] \<Longrightarrow>
   calculateAverage lib data field
     = sum_list (List.map_filter (\<lambda>row. parseFloat lib (fieldOrEmpty row field)) data)
       / real (length data)"
  by (simp add: calculateAverage_def calculateSum_parsed)

text \<open>
  Claim C4 (\<open>average\<close> over the values that parse). The claim says the average of a group is
  the sum of the values that parse divided by the number of values that parsed. The code
  skips the values that do not parse in the sum, without an error, but divides by the number
  of rows of the group (\<open>calculateAverage_rows\<close>). On the group of the rows
  \<open>{category: "tools", price: "10"}\<close> and \<open>{category: "tools", price: "abc"}\<close> the sum
  of \<open>price\<close> is 10, one value parsed, and the average the code returns is 5, not 10; the
  summary reducer \<open>calculateFieldStats\<close> returns 10 on the same rows.
\<close>

theorem average_divides_by_group_size:
  "groupData [rowWidget, rowGadget] [''category''] ''tools'' = Some [rowWidget, rowGadget]
   \<and> parseFloat sampleLib (fieldOrEmpty rowWidget ''price'') = Some 10
   \<and> parseFloat sampleLib (fieldOrEmpty rowGadget ''price'') = None
   \<and> applyAggregateRule sampleLib [rowWidget, rowGadget] (priceRule ''sum'') = AggFloat 10
   \<and> applyAggregateRule sampleLib [rowWidget, rowGadget] (priceRule ''average'') = AggFloat 5
   \<and> Average (calculateFieldStats sampleLib [rowWidget, rowGadget] ''price'') = 10"
proof -
  have pw: "parseFloat sampleLib (fieldOrEmpty rowWidget ''price'') = Some 10"
    by (simp add: sampleLib_def tableLib_def fieldOrEmpty_def rowWidget_def)
  have pg: "parseFloat sampleLib (fieldOrEmpty rowGadget ''price'') = None"
    by (simp add: sampleLib_def tableLib_def fieldOrEmpty_def rowGadget_def)
  have v: "fieldOrEmpty rowGadget ''price'' = ''abc''" "fieldOrEmpty rowWidget ''price'' = ''10''"
    by (simp_all add: fieldOrEmpty_def rowGadget_def rowWidget_def)
  have g: "groupData [rowWidget, rowGadget] [''category''] ''tools''
             = Some [rowWidget, rowGadget]"
    by (simp add: groupData_def createGroupKey_def fieldOrEmpty_def rowGadget_def
        rowWidget_def Let_def)
  have s: "applyAggregateRule sampleLib [rowWidget, rowGadget] (priceRule ''sum'') = AggFloat 10"
    using pw pg by (simp add: applyAggregateRule_def priceRule_def calculateSum_def)
  have a: "applyAggregateRule sampleLib [rowWidget, rowGadget] (priceRule ''average'')
             = AggFloat 5"
    using pw pg
    by (simp add: applyAggregateRule_def priceRule_def calculateAverage_def calculateSum_def)
  have f: "Average (calculateFieldStats sampleLib [rowWidget, rowGadget] ''price'') = 10"
    using pw pg by (simp add: calculateFieldStats_def fieldStatsStep_def v)
  from pw pg g s a f show ?thesis by simp
qed

section \<open>Properties of the validate engine\<close>

lemma validateField_FieldName:
  "validateField lib row rule n = Some e \<Longrightarrow> FieldName e = ValidationRule.Field rule"
  by (auto simp: validateField_def split: option.splits if_splits prod.splits)

lemma validateField_missing:
  "Fields row (ValidationRule.Field rule) = None \<Longrightarrow>
   validateField lib row rule n =
     Some \<lparr>RowNumber = n, FieldName = ValidationRule.Field rule, FieldValue = [],
           RuleType = Type rule,
           Message = ''Field '' @ [CHR 0x27] @ ValidationRule.Field rule @ [CHR 0x27]
                     @ '' is missing'',
           Severity = ''error'', RowData = row\<rparr>"
  by (simp add: validateField_def missingMessage_def)

text \<open>The rule loop appends to the slices it is given.\<close>

lemma validateRules_acc:
  "validateRules lib row n rules (es, ws) =
     (es @ fst (validateRules lib row n rules ([], [])),
      ws @ snd (validateRules lib row n rules ([], [])))"
proof (induction rules arbitrary: es ws)
  case Nil
  show ?case by simp
next
  case (Cons rule rules)
  show ?case
    using Cons.IH [of "es @ [e]" ws for e] Cons.IH [of es "ws @ [e]" for e]
          Cons.IH [of "[e]" "[]" for e] Cons.IH [of "[]" "[e]" for e] Cons.IH [of es ws]
    by (simp split: option.splits)
qed

lemma validateRow_Nil: "validateRow lib row [] n = ([], [])"
  by (simp add: validateRow_def)

lemma validateRow_Cons:
  "validateRow lib row (rule # rules) n =
     (case validateField lib row rule n of
        None \<Rightarrow> validateRow lib row rules n
      | Some e \<Rightarrow>
          if Severity e = ''error''
          then (e # fst (validateRow lib row rules n), snd (validateRow lib row rules n))
          else (fst (validateRow lib row rules n), e # snd (validateRow lib row rules n)))"
  unfolding validateRow_def
  using validateRules_acc [of lib row n rules "[e]" "[]" for e]
        validateRules_acc [of lib row n rules "[]" "[e]" for e]
  by (simp split: option.splits)

text \<open>For a field the row lacks, a rule set yields as many errors for the field as it has
  rules on it, and no warning for it.\<close>

lemma count_errors_missing:
  assumes "Fields row f = None"
  shows "length (filter (\<lambda>e. FieldName e = f) (fst (validateRow lib row rules n)))
           = length (filter (\<lambda>r. ValidationRule.Field r = f) rules)
       \<and> filter (\<lambda>e. FieldName e = f) (snd (validateRow lib row rules n)) = []"
proof (induction rules)
  case Nil
  show ?case by (simp add: validateRow_Nil)
next
  case (Cons rule rules)
  show ?case
  proof (cases "ValidationRule.Field rule = f")
    case True
    with assms Cons show ?thesis
      by (simp add: validateRow_Cons validateField_missing)
  next
    case False
    then show ?thesis
      using Cons validateField_FieldName [of lib row rule n]
      by (auto simp: validateRow_Cons split: option.splits)
  qed
qed

text \<open>
  Claim C5 (a missing field is an error). When the row lacks the field of a rule,
  \<open>validateField\<close> returns one \<open>ValidationError\<close> for that field, of severity \<open>error\<close>, with
  the message \<open>Field '<name>' is missing\<close>, whatever the type of the rule, a type the engine
  does not know included. Validating the row against the rule alone gives exactly that error
  and no warning; validating it against any rule set gives one error for the field per rule
  on the field, and no warning for the field.
\<close>

theorem missing_field_is_error:
  assumes "Fields row (ValidationRule.Field rule) = None"
  shows "validateField lib row rule n =
           Some \<lparr>RowNumber = n, FieldName = ValidationRule.Field rule, FieldValue = [],
                 RuleType = Type rule,
                 Message = ''Field '' @ [CHR 0x27] @ ValidationRule.Field rule @ [CHR 0x27]
                           @ '' is missing'',
                 Severity = ''error'', RowData = row\<rparr>
       \<and> validateRow lib row [rule] n =
           ([\<lparr>RowNumber = n, FieldName = ValidationRule.Field rule, FieldValue = [],
              RuleType = Type rule,
              Message = ''Field '' @ [CHR 0x27] @ ValidationRule.Field rule @ [CHR 0x27]
                        @ '' is missing'',
              Severity = ''error'', RowData = row\<rparr>], [])
       \<and> (\<forall>rules. length (filter (\<lambda>e. FieldName e = ValidationRule.Field rule)
                              (fst (validateRow lib row rules n)))
                    = length (filter (\<lambda>r. ValidationRule.Field r = ValidationRule.Field rule)
                                rules)
                  \<and> filter (\<lambda>e. FieldName e = ValidationRule.Field rule)
                       (snd (validateRow lib row rules n)) = [])"
  using validateField_missing [OF assms, of lib n] count_errors_missing [OF assms, of lib _ n]
  by (simp add: validateRow_Cons validateRow_Nil)

theorem missing_field_is_error_witness:
  "Fields rowAlice (ValidationRule.Field customEmail) = None
   \<and> Type customEmail = ''custom''
   \<and> validateRow sampleLib rowAlice [customEmail] 1 =
       ([\<lparr>RowNumber = 1, FieldName = ''email'', FieldValue = [], RuleType = ''custom'',
          Message = ''Field 'email' is missing'', Severity = ''error'',
          RowData = rowAlice\<rparr>], [])"
proof -
  have absent: "Fields rowAlice (ValidationRule.Field customEmail) = None"
    by (simp add: rowAlice_def customEmail_def)
  from missing_field_is_error [OF absent, of sampleLib 1] absent show ?thesis
    by (simp add: customEmail_def)
qed

subsection \<open>Quality score\<close>

lemma calculateQualityScore_bounds:
  "0 \<le> calculateQualityScore r \<and> calculateQualityScore r \<le> 100"
  by (simp add: calculateQualityScore_def Let_def)

lemma calculateQualityScore_formula:
  "TotalRows r \<noteq> 0 \<Longrightarrow>
   calculateQualityScore r =
     max 0 (min 100 (real_of_int (ValidRows r) / real_of_int (TotalRows r) * 100
                     - real (length (Warnings r)) / real_of_int (TotalRows r) * 5))"
  by (simp add: calculateQualityScore_def Let_def max_def min_def)

lemma calculateQualityScore_QualityScore_update:
  "calculateQualityScore (r\<lparr>QualityScore := q\<rparr>) = calculateQualityScore r"
  by (simp add: calculateQualityScore_def)

lemma validateStep_TotalRows:
  "validateStep lib opts i row (res, v, iv) = ((res', v', iv'), stop) \<Longrightarrow>
   TotalRows res' = TotalRows res"
  by (auto simp: validateStep_def Let_def split: prod.splits if_splits)

lemma validateLoop_TotalRows:
  "validateLoop lib opts i rows (res, v, iv) = (res', v', iv') \<Longrightarrow>
   TotalRows res' = TotalRows res"
proof (induction rows arbitrary: i res v iv)
  case Nil
  then show ?case by simp
next
  case (Cons row rows)
  obtain r1 v1 iv1 stop where
    s: "validateStep lib opts i row (res, v, iv) = ((r1, v1, iv1), stop)"
    by (metis prod.exhaust)
  from validateStep_TotalRows [OF s] have t: "TotalRows r1 = TotalRows res" .
  show ?case
  proof (cases stop)
    case True
    with Cons.prems s t show ?thesis by simp
  next
    case False
    with Cons.prems s have "validateLoop lib opts (Suc i) rows (r1, v1, iv1) = (res', v', iv')"
      by simp
    from Cons.IH [OF this] t show ?thesis by simp
  qed
qed

lemma validateData_result:
  "TotalRows (fst (validateData lib data opts)) = int (length data)
   \<and> QualityScore (fst (validateData lib data opts))
       = calculateQualityScore (fst (validateData lib data opts))"
proof -
  let ?init = "\<lparr>ValidRows = 0, InvalidRows = 0, TotalRows = int (length data), Errors = [],
               Warnings = [], FieldStats = Map.empty, QualityScore = 0\<rparr>"
  obtain r1 v1 iv1 where l: "validateLoop lib opts 0 data (?init, [], []) = (r1, v1, iv1)"
    by (metis prod.exhaust)
  from validateLoop_TotalRows [OF l] have "TotalRows r1 = int (length data)" by simp
  moreover from l have "fst (validateData lib data opts)
                          = r1\<lparr>QualityScore := calculateQualityScore r1\<rparr>"
    by (simp add: validateData_def)
  ultimately show ?thesis
    by (simp add: calculateQualityScore_QualityScore_update)
qed

text \<open>
  Claim C2 (quality score). The quality score of every validation run lies between 0 and
  100. For a run over at least one row it is
  \<open>validRows / totalRows \<times> 100 - warnings / totalRows \<times> 5\<close>, clamped to the interval from 0
  to 100, where the counts are those of the result; for a run over no row, where the quotient
  has no value, it is 0. The same holds of \<open>calculateQualityScore\<close> on any result record.
\<close>

theorem quality_score_formula_and_bounds:
  "0 \<le> QualityScore (fst (validateData lib data opts))
   \<and> QualityScore (fst (validateData lib data opts)) \<le> 100
   \<and> (data = [] \<longrightarrow> QualityScore (fst (validateData lib data opts)) = 0)
   \<and> (data \<noteq> [] \<longrightarrow>
        QualityScore (fst (validateData lib data opts)) =
          max 0 (min 100
            (real_of_int (ValidRows (fst (validateData lib data opts)))
               / real_of_int (TotalRows (fst (validateData lib data opts))) * 100
             - real (length (Warnings (fst (validateData lib data opts))))
               / real_of_int (TotalRows (fst (validateData lib data opts))) * 5)))
   \<and> 0 \<le> calculateQualityScore r \<and> calculateQualityScore r \<le> 100
   \<and> (TotalRows r = 0 \<longrightarrow> calculateQualityScore r = 0)
   \<and> (TotalRows r \<noteq> 0 \<longrightarrow>
        calculateQualityScore r =
          max 0 (min 100 (real_of_int (ValidRows r) / real_of_int (TotalRows r) * 100
                          - real (length (Warnings r)) / real_of_int (TotalRows r) * 5)))"
proof -
  let ?res = "fst (validateData lib data opts)"
  have q: "QualityScore ?res = calculateQualityScore ?res"
    and t: "TotalRows ?res = int (length data)"
    using validateData_result [of lib data opts] by simp_all
  have "0 \<le> QualityScore ?res" "QualityScore ?res \<le> 100"
    using calculateQualityScore_bounds [of ?res] q by simp_all
  moreover have "data = [] \<longrightarrow> QualityScore ?res = 0"
  proof
    assume "data = []"
    with t have "TotalRows ?res = 0" by simp
    then have "calculateQualityScore ?res = 0" by (simp add: calculateQualityScore_def)
    with q show "QualityScore ?res = 0" by simp
  qed
  moreover have "data \<noteq> [] \<longrightarrow> QualityScore ?res =
          max 0 (min 100 (real_of_int (ValidRows ?res) / real_of_int (TotalRows ?res) * 100
             - real (length (Warnings ?res)) / real_of_int (TotalRows ?res) * 5))"
    using calculateQualityScore_formula [of ?res] q t by simp
  moreover have "TotalRows r = 0 \<longrightarrow> calculateQualityScore r = 0"
    by (simp add: calculateQualityScore_def)
  ultimately show ?thesis
    using calculateQualityScore_bounds [of r] calculateQualityScore_formula [of r] by blast
qed

theorem quality_score_formula_and_bounds_witness:
  "[rowDave, rowAlice] \<noteq> []
   \<and> ValidRows (fst (validateData sampleLib [rowDave, rowAlice] requireEmail)) = 1
   \<and> TotalRows (fst (validateData sampleLib [rowDave, rowAlice] requireEmail)) = 2
   \<and> Warnings (fst (validateData sampleLib [rowDave, rowAlice] requireEmail)) = []
   \<and> QualityScore (fst (validateData sampleLib [rowDave, rowAlice] requireEmail)) = 50"
proof -
  let ?res = "fst (validateData sampleLib [rowDave, rowAlice] requireEmail)"
  have counts: "ValidRows ?res = 1 \<and> TotalRows ?res = 2 \<and> Warnings ?res = []"
    by (simp add: validateData_def validateStep_def validateRow_def validateField_def
        checkRule_def requireEmail_def rowDave_def rowAlice_def Let_def)
  from quality_score_formula_and_bounds [of sampleLib "[rowDave, rowAlice]" requireEmail]
  have "QualityScore ?res =
          max 0 (min 100 (real_of_int (ValidRows ?res) / real_of_int (TotalRows ?res) * 100
             - real (length (Warnings ?res)) / real_of_int (TotalRows ?res) * 5))"
    by simp
  with counts show ?thesis by simp
qed

subsection \<open>Fail fast\<close>

lemma validateStep_stop:
  "snd (validateStep lib opts i row st)
     = (FailFast opts \<and> fst (validateRow lib row (ValidateOptions.Rules opts) (int i + 1)) \<noteq> [])"
  by (cases st) (simp add: validateStep_def Let_def split: prod.splits)

text \<open>The loop never reads \<open>TotalRows\<close>: setting it before the loop or after it is the same.\<close>

lemma validateStep_TotalRows_update:
  "validateStep lib opts i row (res\<lparr>TotalRows := t\<rparr>, v, iv) =
     (case validateStep lib opts i row (res, v, iv) of
        ((res', v', iv'), stop) \<Rightarrow> ((res'\<lparr>TotalRows := t\<rparr>, v', iv'), stop))"
  by (simp add: validateStep_def Let_def split: prod.splits)

lemma validateLoop_TotalRows_update:
  "validateLoop lib opts i rows (res\<lparr>TotalRows := t\<rparr>, v, iv) =
     (case validateLoop lib opts i rows (res, v, iv) of
        (res', v', iv') \<Rightarrow> (res'\<lparr>TotalRows := t\<rparr>, v', iv'))"
proof (induction rows arbitrary: i res v iv)
  case Nil
  show ?case by simp
next
  case (Cons row rows)
  obtain r1 v1 iv1 stop where
    s: "validateStep lib opts i row (res, v, iv) = ((r1, v1, iv1), stop)"
    by (metis prod.exhaust)
  then have s': "validateStep lib opts i row (res\<lparr>TotalRows := t\<rparr>, v, iv)
                   = ((r1\<lparr>TotalRows := t\<rparr>, v1, iv1), stop)"
    by (simp add: validateStep_TotalRows_update)
  show ?case
    using s s' Cons.IH [of "Suc i" r1 v1 iv1] by simp
qed

text \<open>Under \<open>failFast\<close> the loop does not look beyond a row with an error.\<close>

lemma validateLoop_fail_fast:
  assumes "FailFast opts"
      and "fst (validateRow lib r (ValidateOptions.Rules opts) (int (i + length pre) + 1)) \<noteq> []"
  shows "validateLoop lib opts i (pre @ r # post) st = validateLoop lib opts i (pre @ [r]) st"
  using assms(2)
proof (induction pre arbitrary: i st)
  case Nil
  obtain st' stop where s: "validateStep lib opts i r st = (st', stop)"
    by (metis prod.exhaust)
  with validateStep_stop [of lib opts i r st] Nil assms(1) have "stop" by simp
  with s show ?case by simp
next
  case (Cons p pre)
  obtain st' stop where s: "validateStep lib opts i p st = (st', stop)"
    by (metis prod.exhaust)
  from Cons.prems have "fst (validateRow lib r (ValidateOptions.Rules opts)
                               (int (Suc i + length pre) + 1)) \<noteq> []"
    by simp
  from Cons.IH [OF this] s show ?case by simp
qed

text \<open>
  Claim C6 as stated (rows after the stopping row are not counted) fails on \<open>TotalRows\<close>:
  \<open>validateData\<close> sets it to the length of the input before the loop. With \<open>failFast\<close> and
  the rule that \<open>email\<close> is required, the run over \<open>rowAlice\<close> (no \<open>email\<close>) followed by
  \<open>rowDave\<close> stops after the first row, with no valid and one invalid row, and reports two
  rows in total, where the run over \<open>rowAlice\<close> alone reports one; the quality score is
  computed from that total.
\<close>

theorem fail_fast_total_rows_counterexample:
  "FailFast (requireEmail\<lparr>FailFast := True\<rparr>)
   \<and> fst (validateRow sampleLib rowAlice
            (ValidateOptions.Rules (requireEmail\<lparr>FailFast := True\<rparr>)) 1) \<noteq> []
   \<and> ValidRows (fst (validateData sampleLib [rowAlice, rowDave]
                        (requireEmail\<lparr>FailFast := True\<rparr>))) = 0
   \<and> InvalidRows (fst (validateData sampleLib [rowAlice, rowDave]
                          (requireEmail\<lparr>FailFast := True\<rparr>))) = 1
   \<and> TotalRows (fst (validateData sampleLib [rowAlice, rowDave]
                        (requireEmail\<lparr>FailFast := True\<rparr>))) = 2
   \<and> TotalRows (fst (validateData sampleLib [rowAlice]
                        (requireEmail\<lparr>FailFast := True\<rparr>))) = 1"
  by (simp add: validateData_def validateStep_def validateRow_def validateField_def
      checkRule_def requireEmail_def rowDave_def rowAlice_def Let_def)

text \<open>Whether \<open>failFast\<close> is set changes only the stop flag of a pass, and a pass over a
  row without errors never stops the loop. So up to the first row with an error the loop
  with \<open>failFast\<close> does what the loop without it does.\<close>

lemma validateStep_FailFast_update:
  "fst (validateStep lib (opts\<lparr>FailFast := b\<rparr>) i row st) = fst (validateStep lib opts i row st)"
  by (cases st) (simp add: validateStep_def Let_def split: prod.splits)

lemma validateLoop_one_row:
  "validateLoop lib opts i [row] st = fst (validateStep lib opts i row st)"
  by (simp split: prod.splits)

lemma validateLoop_until_first_error:
  assumes "\<forall>k < length pre.
             fst (validateRow lib (pre ! k) (ValidateOptions.Rules opts) (int (i + k) + 1)) = []"
  shows "validateLoop lib opts i (pre @ [r]) st
           = validateLoop lib (opts\<lparr>FailFast := False\<rparr>) i (pre @ [r]) st"
  using assms
proof (induction pre arbitrary: i st)
  case Nil
  show ?case
    using validateStep_FailFast_update [where opts = opts and b = False and row = r and st = st and i = i and lib = lib]
    by (simp only: append_Nil validateLoop_one_row)
next
  case (Cons p pre)
  from Cons.prems have "fst (validateRow lib p (ValidateOptions.Rules opts) (int i + 1)) = []"
    by fastforce
  then have go: "\<not> snd (validateStep lib opts i p st)"
    and go': "\<not> snd (validateStep lib (opts\<lparr>FailFast := False\<rparr>) i p st)"
    by (simp_all add: validateStep_stop)
  have rest: "\<forall>k < length pre.
                fst (validateRow lib (pre ! k) (ValidateOptions.Rules opts)
                       (int (Suc i + k) + 1)) = []"
  proof (intro allI impI)
    fix k assume "k < length pre"
    then have "Suc k < length (p # pre)" by simp
    with Cons.prems
    have "fst (validateRow lib ((p # pre) ! Suc k) (ValidateOptions.Rules opts)
                 (int (i + Suc k) + 1)) = []"
      by blast
    then show "fst (validateRow lib (pre ! k) (ValidateOptions.Rules opts)
                      (int (Suc i + k) + 1)) = []"
      by simp
  qed
  obtain st' stop where s: "validateStep lib opts i p st = (st', stop)"
    by (metis prod.exhaust)
  obtain st'' stop' where s': "validateStep lib (opts\<lparr>FailFast := False\<rparr>) i p st = (st'', stop')"
    by (metis prod.exhaust)
  from s s' validateStep_FailFast_update [where opts = opts and b = False and row = p and st = st and i = i and lib = lib] have same: "st'' = st'"
    by simp
  from go s have "\<not> stop" by simp
  moreover from go' s' have "\<not> stop'" by simp
  ultimately show ?case
    using s s' same Cons.IH [OF rest, of st'] by simp
qed

lemma validateData_until_first_error:
  assumes "\<forall>k < length pre.
             fst (validateRow lib (pre ! k) (ValidateOptions.Rules opts) (int k + 1)) = []"
  shows "validateData lib (pre @ [r]) opts
           = validateData lib (pre @ [r]) (opts\<lparr>FailFast := False\<rparr>)"
  using validateLoop_until_first_error [of pre lib opts 0 r] assms
  by (simp add: validateData_def)

text \<open>
  Claim C6, amended. When \<open>failFast\<close> is set, row-by-row validation runs up to the first
  row that produces at least one error and stops there: if no row before \<open>r\<close> produces an
  error and \<open>r\<close> produces one, the result of the run is the result of validating, without
  \<open>failFast\<close>, the input cut after \<open>r\<close>, in the counts of valid and invalid rows, the
  errors, the warnings, the field statistics and the lists of valid and invalid rows; the rows
  after \<open>r\<close> are not validated. Only \<open>TotalRows\<close> differs, which is the number of rows of
  the whole input, and with it the quality score, which is computed from that total.
\<close>

theorem fail_fast_stops_at_first_error:
  assumes "FailFast opts"
      and "\<forall>k < length pre.
             fst (validateRow lib (pre ! k) (ValidateOptions.Rules opts) (int k + 1)) = []"
      and "fst (validateRow lib r (ValidateOptions.Rules opts) (int (length pre) + 1)) \<noteq> []"
  shows "fst (validateData lib (pre @ r # post) opts) =
           (fst (validateData lib (pre @ [r]) (opts\<lparr>FailFast := False\<rparr>)))
             \<lparr>TotalRows := int (length pre) + 1 + int (length post),
              QualityScore := calculateQualityScore
                 ((fst (validateData lib (pre @ [r]) (opts\<lparr>FailFast := False\<rparr>)))
                    \<lparr>TotalRows := int (length pre) + 1 + int (length post)\<rparr>)\<rparr>
       \<and> snd (validateData lib (pre @ r # post) opts)
           = snd (validateData lib (pre @ [r]) (opts\<lparr>FailFast := False\<rparr>))"
proof -
  let ?init = "\<lparr>ValidRows = 0, InvalidRows = 0, TotalRows = int (length (pre @ [r])),
                Errors = [], Warnings = [], FieldStats = Map.empty, QualityScore = 0\<rparr>"
  let ?n = "int (length (pre @ r # post))"
  obtain res v iv where l: "validateLoop lib opts 0 (pre @ [r]) (?init, [], []) = (res, v, iv)"
    by (metis prod.exhaust)
  have "validateLoop lib opts 0 (pre @ r # post) (?init\<lparr>TotalRows := ?n\<rparr>, [], [])
          = validateLoop lib opts 0 (pre @ [r]) (?init\<lparr>TotalRows := ?n\<rparr>, [], [])"
    using assms(1,3) by (intro validateLoop_fail_fast) simp_all
  also have "\<dots> = (res\<lparr>TotalRows := ?n\<rparr>, v, iv)"
    unfolding validateLoop_TotalRows_update l by simp
  finally have big:
    "validateLoop lib opts 0 (pre @ r # post) (?init\<lparr>TotalRows := ?n\<rparr>, [], [])
       = (res\<lparr>TotalRows := ?n\<rparr>, v, iv)" .
  have init: "\<lparr>ValidRows = 0, InvalidRows = 0, TotalRows = ?n, Errors = [],
               Warnings = [], FieldStats = Map.empty, QualityScore = 0\<rparr>
                = ?init\<lparr>TotalRows := ?n\<rparr>"
    by simp
  have A: "validateData lib (pre @ r # post) opts =
      (res\<lparr>TotalRows := ?n,
            QualityScore := calculateQualityScore (res\<lparr>TotalRows := ?n\<rparr>)\<rparr>, v, iv)"
    unfolding validateData_def init big by simp
  have "validateData lib (pre @ [r]) opts =
      (res\<lparr>QualityScore := calculateQualityScore res\<rparr>, v, iv)"
    using l by (simp add: validateData_def)
  then have B: "validateData lib (pre @ [r]) (opts\<lparr>FailFast := False\<rparr>) =
      (res\<lparr>QualityScore := calculateQualityScore res\<rparr>, v, iv)"
    using validateData_until_first_error [OF assms(2), of r] by simp
  have n: "?n = int (length pre) + 1 + int (length post)" by simp
  show ?thesis
    unfolding A B n by (simp add: calculateQualityScore_def)
qed

theorem fail_fast_stops_at_first_error_witness:
  "FailFast (requireEmail\<lparr>FailFast := True\<rparr>)
   \<and> fst (validateRow sampleLib rowDave
            (ValidateOptions.Rules (requireEmail\<lparr>FailFast := True\<rparr>)) 1) = []
   \<and> fst (validateRow sampleLib rowAlice
            (ValidateOptions.Rules (requireEmail\<lparr>FailFast := True\<rparr>)) 2) \<noteq> []
   \<and> fst (validateData sampleLib [rowDave, rowAlice, rowBob, rowCarol]
            (requireEmail\<lparr>FailFast := True\<rparr>)) =
       (fst (validateData sampleLib [rowDave, rowAlice] requireEmail))
         \<lparr>TotalRows := 4, QualityScore := 25\<rparr>
   \<and> ValidRows (fst (validateData sampleLib [rowDave, rowAlice, rowBob, rowCarol]
                        (requireEmail\<lparr>FailFast := True\<rparr>))) = 1
   \<and> InvalidRows (fst (validateData sampleLib [rowDave, rowAlice, rowBob, rowCarol]
                          (requireEmail\<lparr>FailFast := True\<rparr>))) = 1
   \<and> snd (validateData sampleLib [rowDave, rowAlice, rowBob, rowCarol]
            (requireEmail\<lparr>FailFast := True\<rparr>)) = ([rowDave], [rowAlice])"
proof -
  let ?opts = "requireEmail\<lparr>FailFast := True\<rparr>"
  let ?cut = "validateData sampleLib ([rowDave] @ [rowAlice]) (?opts\<lparr>FailFast := False\<rparr>)"
  have ff: "FailFast ?opts" by simp
  have ok: "fst (validateRow sampleLib rowDave (ValidateOptions.Rules ?opts) 1) = []"
    by (simp add: validateRow_def validateField_def checkRule_def requireEmail_def rowDave_def)
  then have pre: "\<forall>k < length [rowDave].
      fst (validateRow sampleLib ([rowDave] ! k) (ValidateOptions.Rules ?opts) (int k + 1)) = []"
    by simp
  have err: "fst (validateRow sampleLib rowAlice (ValidateOptions.Rules ?opts)
                    (int (length [rowDave]) + 1)) \<noteq> []"
    by (simp add: validateRow_def validateField_def requireEmail_def rowAlice_def)
  have same: "?opts\<lparr>FailFast := False\<rparr> = requireEmail"
    by (simp add: requireEmail_def)
  have cut: "ValidRows (fst ?cut) = 1 \<and> InvalidRows (fst ?cut) = 1 \<and> Warnings (fst ?cut) = []
             \<and> snd ?cut = ([rowDave], [rowAlice])"
    by (simp add: validateData_def validateStep_def validateRow_def validateField_def
        checkRule_def requireEmail_def rowDave_def rowAlice_def Let_def)
  then have score: "calculateQualityScore ((fst ?cut)\<lparr>TotalRows := 4\<rparr>) = 25"
    by (simp add: calculateQualityScore_def)
  from fail_fast_stops_at_first_error [OF ff pre err, of "[rowBob, rowCarol]"]
  have "fst (validateData sampleLib [rowDave, rowAlice, rowBob, rowCarol] ?opts)
          = (fst ?cut)\<lparr>TotalRows := 4, QualityScore := 25\<rparr>
        \<and> snd (validateData sampleLib [rowDave, rowAlice, rowBob, rowCarol] ?opts) = snd ?cut"
    using score by simp
  with cut ok err ff show ?thesis
    unfolding same by simp
qed

section \<open>Properties of the transform engine\<close>

lemma applyRules_frame:
  "applyRules lib row rules acc = Inr acc' \<Longrightarrow>
   \<forall>rule \<in> set rules. targetField rule \<noteq> f \<Longrightarrow> acc' f = acc f"
proof (induction rules arbitrary: acc)
  case Nil
  then show ?case by simp
next
  case (Cons rule rules)
  from Cons.prems(1) obtain result where
    r: "applyTransformRule lib row rule = Inr result"
    and rest: "applyRules lib row rules (acc(targetField rule \<mapsto> result)) = Inr acc'"
    by (auto split: sum.splits)
  from Cons.IH [OF rest] Cons.prems(2) show ?case by auto
qed

text \<open>Only \<open>extract\<close> can panic, so a run without an \<open>extract\<close> rule returns a row.\<close>

lemma applyTransformRule_returns:
  "TransformRule.Operation rule \<noteq> ''extract'' \<Longrightarrow>
   \<exists>result. applyTransformRule lib row rule = Inr result"
  by (simp add: applyTransformRule_def split: option.splits)

lemma applyRules_returns:
  "\<forall>rule \<in> set rules. TransformRule.Operation rule \<noteq> ''extract'' \<Longrightarrow>
   \<exists>acc'. applyRules lib row rules acc = Inr acc'"
proof (induction rules arbitrary: acc)
  case Nil
  show ?case by simp
next
  case (Cons rule rules)
  then obtain result where "applyTransformRule lib row rule = Inr result"
    using applyTransformRule_returns [of rule lib row] by auto
  with Cons show ?case by simp
qed

lemma transformRow_returns:
  "\<forall>rule \<in> set (TransformOptions.Rules opts). TransformRule.Operation rule \<noteq> ''extract'' \<Longrightarrow>
   \<exists>out. transformRow lib row opts = Inr out"
proof -
  assume "\<forall>rule \<in> set (TransformOptions.Rules opts). TransformRule.Operation rule \<noteq> ''extract''"
  from applyRules_returns [OF this, of lib row "if KeepFields opts then Fields row else Map.empty"]
  obtain acc' where
    "applyRules lib row (TransformOptions.Rules opts)
       (if KeepFields opts then Fields row else Map.empty) = Inr acc'"
    by blast
  then show ?thesis by (simp add: transformRow_def)
qed

lemma transformData_rows:
  "transformData lib data opts = Inr outs \<Longrightarrow>
   length outs = length data
   \<and> (\<forall>i < length data. transformRow lib (data ! i) opts = Inr (outs ! i))"
proof (induction data arbitrary: outs)
  case Nil
  then show ?case by simp
next
  case (Cons row data)
  from Cons.prems obtain out rest where
    o: "transformRow lib row opts = Inr out" and r: "transformData lib data opts = Inr rest"
    and outs: "outs = out # rest"
    by (auto split: sum.splits)
  from Cons.IH [OF r] o outs show ?case
    by (auto simp: nth_Cons split: nat.splits)
qed

text \<open>
  Claim C9 (kept fields are untouched). With \<open>keepFields\<close> set, a field that is the target
  of no rule of the rule set has in the transformed row the value it has in the input row (and
  is absent from it when the input row lacks it). This holds of the row \<open>transformRow\<close>
  returns and of every row of the output of \<open>transformData\<close>, which has one row per input
  row, in the input's order.
\<close>

theorem keep_fields_frame:
  assumes "KeepFields opts"
      and "\<forall>rule \<in> set (TransformOptions.Rules opts). targetField rule \<noteq> f"
  shows "(\<forall>out. transformRow lib row opts = Inr out \<longrightarrow> Fields out f = Fields row f)
       \<and> (\<forall>outs. transformData lib data opts = Inr outs \<longrightarrow>
            length outs = length data
            \<and> (\<forall>i < length data. Fields (outs ! i) f = Fields (data ! i) f))"
proof -
  have row: "Fields out f = Fields row' f" if "transformRow lib row' opts = Inr out" for row' out
    using that assms
      applyRules_frame [of lib row' "TransformOptions.Rules opts" "Fields row'" _ f]
    by (auto simp: transformRow_def split: sum.splits)
  then show ?thesis
    using transformData_rows [of lib data opts] by auto
qed

theorem keep_fields_frame_witness:
  "KeepFields (withRules [caseRule ''status'' ''upper_case''])
   \<and> list_all (\<lambda>rule. targetField rule \<noteq> ''name'')
         (TransformOptions.Rules (withRules [caseRule ''status'' ''upper_case'']))
   \<and> transformRow sampleLib rowActive (withRules [caseRule ''status'' ''upper_case''])
       = Inr \<lparr>Fields = (Fields rowActive)(''status'' \<mapsto> ''ACTIVE'')\<rparr>
   \<and> Fields \<lparr>Fields = (Fields rowActive)(''status'' \<mapsto> ''ACTIVE'')\<rparr> ''name'' = Some ''Alice''"
proof -
  let ?opts = "withRules [caseRule ''status'' ''upper_case'']"
  have k: "KeepFields ?opts"
    by (simp add: withRules_def)
  have t: "\<forall>rule \<in> set (TransformOptions.Rules ?opts). targetField rule \<noteq> ''name''"
    by (simp add: withRules_def caseRule_def targetField_def)
  have up: "toUpper ''active'' = ''ACTIVE''"
    by code_simp
  have r: "transformRow sampleLib rowActive ?opts
             = Inr \<lparr>Fields = (Fields rowActive)(''status'' \<mapsto> ''ACTIVE'')\<rparr>"
    by (simp add: transformRow_def applyTransformRule_def withRules_def caseRule_def
        targetField_def rowActive_def up)
  from keep_fields_frame [OF k t, of sampleLib rowActive] r
  have "Fields \<lparr>Fields = (Fields rowActive)(''status'' \<mapsto> ''ACTIVE'')\<rparr> ''name''
          = Fields rowActive ''name''"
    by blast
  then have "Fields \<lparr>Fields = (Fields rowActive)(''status'' \<mapsto> ''ACTIVE'')\<rparr> ''name''
               = Some ''Alice''"
    by (simp add: rowActive_def)
  with k t r show ?thesis by (simp add: list_all_iff)
qed

subsection \<open>Upper case, then lower case\<close>

lemma toLowerByte_toUpperByte:
  "isLowerByte c \<Longrightarrow> toLowerByte (toUpperByte c) = c"
proof -
  assume l: "isLowerByte c"
  then have range: "97 \<le> (of_char c :: nat)" "(of_char c :: nat) \<le> 122"
    by (simp_all add: isLowerByte_def)
  then have "((of_char c :: nat) - 32) mod 256 = of_char c - 32"
    by simp
  with l have u: "of_char (toUpperByte c) = (of_char c :: nat) - 32"
    by (simp add: toUpperByte_def)
  with range have "isUpperByte (toUpperByte c)"
    unfolding isUpperByte_def by linarith
  moreover from u range have "(of_char (toUpperByte c) :: nat) + 32 = of_char c"
    by linarith
  ultimately show ?thesis
    by (simp add: toLowerByte_def)
qed

lemma toLowerByte_lower:
  "isLowerByte c \<Longrightarrow> toLowerByte c = c"
  by (simp add: toLowerByte_def isLowerByte_def isUpperByte_def)

lemma toLowerByte_toUpperByte_letter:
  "isLetterByte c \<Longrightarrow> toLowerByte (toUpperByte c) = toLowerByte c"
proof (cases "isLowerByte c")
  case True
  with toLowerByte_toUpperByte [OF True] toLowerByte_lower [OF True] show ?thesis by simp
next
  case False
  then show ?thesis by (simp add: toUpperByte_def)
qed

text \<open>Two runs: the field ends as the lower case of the upper case of its value. Two rules
  of one run: both read the input row, and the second overwrites the first, so the field ends
  as the lower case of its value.\<close>

lemma upperThenLower_value:
  assumes "Fields row field = Some v"
  shows "upperThenLower lib row field
           = Inr \<lparr>Fields = (Fields row)(field \<mapsto> toLower (toUpper v))\<rparr>"
  using assms
  by (simp add: upperThenLower_def transformRow_def applyTransformRule_def withRules_def
      caseRule_def targetField_def)

lemma upperAndLower_value:
  assumes "Fields row field = Some v"
  shows "upperAndLower lib row field = Inr \<lparr>Fields = (Fields row)(field \<mapsto> toLower v)\<rparr>"
  using assms
  by (simp add: upperAndLower_def transformRow_def applyTransformRule_def withRules_def
      caseRule_def targetField_def)

text \<open>
  Claim C8 as stated (\<open>upper_case\<close> then \<open>lower_case\<close> returns the original value of an
  alphabetic field) fails on a value with a capital letter: the field \<open>name\<close> of \<open>rowActive\<close>
  is \<open>Alice\<close>, letters only, and after the two operations, as two runs or as two rules of
  one run, it is \<open>alice\<close>.
\<close>

theorem upper_then_lower_counterexample:
  "Fields rowActive ''name'' = Some ''Alice''
   \<and> list_all isLetterByte ''Alice''
   \<and> upperThenLower sampleLib rowActive ''name''
       = Inr \<lparr>Fields = [''status'' \<mapsto> ''active'', ''name'' \<mapsto> ''alice'']\<rparr>
   \<and> upperAndLower sampleLib rowActive ''name''
       = Inr \<lparr>Fields = [''status'' \<mapsto> ''active'', ''name'' \<mapsto> ''alice'']\<rparr>
   \<and> ''alice'' \<noteq> ''Alice''"
proof -
  have l: "toLower (toUpper ''Alice'') = ''alice''" "toLower ''Alice'' = ''alice''"
    by code_simp+
  have a: "list_all isLetterByte ''Alice''"
    by code_simp
  have n: "Fields rowActive ''name'' = Some ''Alice''"
    by (simp add: rowActive_def)
  from upperThenLower_value [OF n, of sampleLib] upperAndLower_value [OF n, of sampleLib] l a n
  show ?thesis
    by (simp add: rowActive_def)
qed

text \<open>
  Claim C8, amended. For a row whose field value consists of lower-case letters \<open>a\<close>..\<open>z\<close>
  only, applying \<open>upper_case\<close> to the field and then \<open>lower_case\<close> to the same field, as two
  runs or as two rules of one run, returns a row in which the field has its original value;
  for a value of letters \<open>a\<close>..\<open>z\<close> and \<open>A\<close>..\<open>Z\<close> the field ends as the value in lower
  case. No other field changes.
\<close>

theorem upper_then_lower_round_trip:
  assumes "Fields row field = Some v"
  shows "((\<forall>c \<in> set v. isLowerByte c) \<longrightarrow>
            upperThenLower lib row field = Inr row \<and> upperAndLower lib row field = Inr row)
       \<and> ((\<forall>c \<in> set v. isLetterByte c) \<longrightarrow>
            upperThenLower lib row field = Inr \<lparr>Fields = (Fields row)(field \<mapsto> toLower v)\<rparr>
            \<and> upperAndLower lib row field = Inr \<lparr>Fields = (Fields row)(field \<mapsto> toLower v)\<rparr>)"
proof -
  have lower: "toLower (toUpper v) = v \<and> toLower v = v" if "\<forall>c \<in> set v. isLowerByte c"
    using that
    by (simp add: toLower_def toUpper_def toLowerByte_toUpperByte toLowerByte_lower map_idI)
  have letter: "toLower (toUpper v) = toLower v" if "\<forall>c \<in> set v. isLetterByte c"
    using that by (simp add: toLower_def toUpper_def toLowerByte_toUpperByte_letter)
  have same: "\<lparr>Fields = (Fields row)(field \<mapsto> v)\<rparr> = row"
    using assms by (simp add: fun_upd_idem)
  show ?thesis
    using upperThenLower_value [OF assms, of lib] upperAndLower_value [OF assms, of lib]
      lower letter same
    by auto
qed

theorem upper_then_lower_round_trip_witness:
  "Fields rowActive ''status'' = Some ''active''
   \<and> list_all isLowerByte ''active''
   \<and> upperThenLower sampleLib rowActive ''status'' = Inr rowActive
   \<and> upperAndLower sampleLib rowActive ''status'' = Inr rowActive"
proof -
  have s: "Fields rowActive ''status'' = Some ''active''"
    by (simp add: rowActive_def)
  have a: "list_all isLowerByte ''active''"
    by code_simp
  then have l: "\<forall>c \<in> set ''active''. isLowerByte c"
    by (simp only: list_all_iff)
  from upper_then_lower_round_trip [OF s, of sampleLib] s l a show ?thesis
    by blast
qed

end
